theory Spec2Isabelle
  imports Complex_Main "HOL-Library.Log_Nat"
begin

section \<open>Smart aquarium backend: data model (api/models.py)\<close>

text \<open>
  The three Django models are tables of rows. A table is the list of its rows in the
  order they were inserted, together with the next free primary key (the
  auto-increment counter). Date-times are points on a discrete clock; a user is the key
  of its \<open>User\<close> row. A Python float is a double: a finite one is modelled by the real
  number it denotes, and \<open>inf\<close>, \<open>-inf\<close> and \<open>nan\<close> are values of their own.
\<close>

type_synonym datetime = nat
type_synonym user = nat

datatype pyfloat = Finite real | PosInf | NegInf | NaN

fun is_finite :: "pyfloat \<Rightarrow> bool" where
  "is_finite (Finite x) = True"
| "is_finite f = False"

record SensorData =
  sd_id :: nat
  temperature :: pyfloat
  humidity :: pyfloat
  timestamp :: datetime

record DeviceControl =
  dc_id :: nat
  device :: string
  is_on :: bool
  last_updated :: datetime

record TemperatureSetpoint =
  sp_id :: nat
  setpoint_temperature :: pyfloat
  created_by :: "user option"
  created_at :: datetime
  updated_at :: datetime
  is_active :: bool

record store =
  sensor_rows :: "SensorData list"
  sensor_next :: nat
  device_rows :: "DeviceControl list"
  device_next :: nat
  setpoint_rows :: "TemperatureSetpoint list"
  setpoint_next :: nat

definition empty_store :: store where
  "empty_store = \<lparr>sensor_rows = [], sensor_next = 1, device_rows = [], device_next = 1,
     setpoint_rows = [], setpoint_next = 1\<rparr>"

section \<open>Python values and exceptions\<close>

text \<open>
  What \<open>json.loads\<close> and \<open>request.data\<close> hand to a view: \<open>JNull\<close> is Python's
  \<open>None\<close>, \<open>JInt\<close> an \<open>int\<close> (of any size), \<open>JFloat\<close> a \<open>float\<close> (the decoder
  makes \<open>inf\<close> of \<open>1e999\<close>), \<open>JObj\<close> holds the items of a \<open>dict\<close> (also of a
  form-encoded \<open>QueryDict\<close>, whose values are strings).
\<close>

datatype json =
    JNull
  | JBool bool
  | JInt int
  | JFloat pyfloat
  | JStr string
  | JArr "json list"
  | JObj "(string \<times> json) list"

datatype exn =
    JSONDecodeError
  | ParseError
  | AttributeError
  | TypeError
  | ValueError
  | OverflowError
  | DatabaseError
  | DoesNotExist
  | MultipleObjectsReturned

text \<open>\<open>d.get(k, dflt)\<close>: only a dict has the method; anything else raises AttributeError.\<close>

definition dict_get :: "json \<Rightarrow> string \<Rightarrow> json \<Rightarrow> exn + json" where
  "dict_get d k dflt =
     (case d of
        JObj kvs \<Rightarrow> Inr (case map_of kvs k of None \<Rightarrow> dflt | Some v \<Rightarrow> v)
      | _ \<Rightarrow> Inl AttributeError)"

text \<open>
  What the views take from the platform they run on, which the sources do not fix:
  how Python's \<open>float\<close> reads a string (\<open>None\<close> is its ValueError), and which
  non-finite floats the database backend of the settings writes into a FloatField
  column (MySQL refuses all three, SQLite refuses \<open>nan\<close>, PostgreSQL takes them).
\<close>

record platform =
  str_to_float :: "string \<Rightarrow> pyfloat option"
  stores_nonfinite :: "pyfloat \<Rightarrow> bool"

text \<open>Every backend stores a finite double.\<close>

definition db_accepts :: "platform \<Rightarrow> pyfloat \<Rightarrow> bool" where
  "db_accepts pf f \<longleftrightarrow> is_finite f \<or> stores_nonfinite pf f"

text \<open>
  \<open>float(n)\<close> of an \<open>int\<close>: the nearest double, ties to even, of a number of more
  than 53 bits; OverflowError when that is \<open>2 ** 1024\<close> or more.
\<close>

definition nearest_double :: "int \<Rightarrow> int" where
  "nearest_double m =
     (if bitlen m \<le> 53 then m
      else
        (let e = nat (bitlen m - 53); q = m div 2 ^ e; r = m mod 2 ^ e; h = 2 ^ (e - 1)
         in (if h < r \<or> (r = h \<and> odd q) then q + 1 else q) * 2 ^ e))"

definition float_of_int :: "int \<Rightarrow> exn + pyfloat" where
  "float_of_int n =
     (let m = nearest_double \<bar>n\<bar>
      in if 2 ^ 1024 \<le> m then Inl OverflowError
         else Inr (Finite (of_int (if n < 0 then - m else m))))"

text \<open>
  Python's built-in \<open>float(v)\<close>: a float is returned as it is, a bool is 0.0 or 1.0,
  an int is rounded, a string is parsed; \<open>None\<close>, a list and a dict raise TypeError.
\<close>

fun py_float :: "platform \<Rightarrow> json \<Rightarrow> exn + pyfloat" where
  "py_float pf JNull = Inl TypeError"
| "py_float pf (JBool b) = Inr (Finite (if b then 1 else 0))"
| "py_float pf (JInt n) = float_of_int n"
| "py_float pf (JFloat f) = Inr f"
| "py_float pf (JStr s) =
     (case str_to_float pf s of None \<Rightarrow> Inl ValueError | Some f \<Rightarrow> Inr f)"
| "py_float pf (JArr vs) = Inl TypeError"
| "py_float pf (JObj kvs) = Inl TypeError"

section \<open>The Django ORM calls the views make\<close>

text \<open>
  \<open>QuerySet.get\<close>: the one row that matches; DoesNotExist when there is none,
  MultipleObjectsReturned when there are several.
\<close>

definition objects_get :: "('r \<Rightarrow> bool) \<Rightarrow> 'r list \<Rightarrow> exn + 'r" where
  "objects_get P rows =
     (case filter P rows of
        [] \<Rightarrow> Inl DoesNotExist
      | [r] \<Rightarrow> Inr r
      | _ \<Rightarrow> Inl MultipleObjectsReturned)"

text \<open>
  \<open>QuerySet.first()\<close> under \<open>ordering = ['-field']\<close>: a row whose key is greatest.
  Among rows of equal key the database is free to answer with any of them; the model
  answers with the one stored first, and no theorem below rests on that choice.
\<close>

fun first_desc :: "('r \<Rightarrow> nat) \<Rightarrow> 'r list \<Rightarrow> 'r option" where
  "first_desc key [] = None"
| "first_desc key (r # rs) =
     (case first_desc key rs of
        None \<Rightarrow> Some r
      | Some r' \<Rightarrow> if key r < key r' then Some r' else Some r)"

text \<open>
  \<open>QuerySet.first()\<close> on a model without default ordering orders by primary key:
  the row whose key is least.
\<close>

fun first_by_pk :: "('r \<Rightarrow> nat) \<Rightarrow> 'r list \<Rightarrow> 'r option" where
  "first_by_pk pk [] = None"
| "first_by_pk pk (r # rs) =
     (case first_by_pk pk rs of
        None \<Rightarrow> Some r
      | Some r' \<Rightarrow> if pk r' < pk r then Some r' else Some r)"

text \<open>
  \<open>SensorData.objects.create(temperature=t, humidity=h)\<close>: auto_now_add stamps the
  row; the INSERT raises when the backend refuses one of the values.
\<close>

definition create_sensor ::
    "platform \<Rightarrow> datetime \<Rightarrow> pyfloat \<Rightarrow> pyfloat \<Rightarrow> store \<Rightarrow> exn + SensorData \<times> store" where
  "create_sensor pf now t h s =
     (if db_accepts pf t \<and> db_accepts pf h then
        (let r = \<lparr>sd_id = sensor_next s, temperature = t, humidity = h, timestamp = now\<rparr>
         in Inr (r, s\<lparr>sensor_rows := sensor_rows s @ [r], sensor_next := Suc (sensor_next s)\<rparr>))
      else Inl DatabaseError)"

text \<open>
  \<open>DeviceControl.objects.get_or_create(device=d, defaults={'is_on': False})\<close>:
  \<open>get\<close>, and on DoesNotExist (only then) create; every other exception passes through.
\<close>

definition get_or_create_device :: "datetime \<Rightarrow> string \<Rightarrow> store \<Rightarrow> exn + DeviceControl \<times> store" where
  "get_or_create_device now d s =
     (case objects_get (\<lambda>r. device r = d) (device_rows s) of
        Inr r \<Rightarrow> Inr (r, s)
      | Inl e \<Rightarrow>
          if e = DoesNotExist then
            (let r = \<lparr>dc_id = device_next s, device = d, is_on = False, last_updated = now\<rparr>
             in Inr (r, s\<lparr>device_rows := device_rows s @ [r], device_next := Suc (device_next s)\<rparr>))
          else Inl e)"

text \<open>\<open>device_obj.save()\<close>: writes the fields to the row of that key; auto_now restamps it.\<close>

definition save_device :: "datetime \<Rightarrow> DeviceControl \<Rightarrow> store \<Rightarrow> store" where
  "save_device now r s =
     s\<lparr>device_rows :=
         map (\<lambda>x. if dc_id x = dc_id r then r\<lparr>last_updated := now\<rparr> else x) (device_rows s)\<rparr>"

text \<open>
  \<open>TemperatureSetpoint.objects.get_or_create(is_active=True,
  defaults={'setpoint_temperature': t, 'created_by': u})\<close>; the INSERT of the create
  branch raises when the backend refuses \<open>t\<close>.
\<close>

definition get_or_create_setpoint ::
    "platform \<Rightarrow> datetime \<Rightarrow> pyfloat \<Rightarrow> user \<Rightarrow> store \<Rightarrow> exn + TemperatureSetpoint \<times> store" where
  "get_or_create_setpoint pf now t u s =
     (case objects_get is_active (setpoint_rows s) of
        Inr r \<Rightarrow> Inr (r, s)
      | Inl e \<Rightarrow>
          if e = DoesNotExist then
            (if db_accepts pf t then
               (let r = \<lparr>sp_id = setpoint_next s, setpoint_temperature = t, created_by = Some u,
                          created_at = now, updated_at = now, is_active = True\<rparr>
                in Inr (r, s\<lparr>setpoint_rows := setpoint_rows s @ [r],
                             setpoint_next := Suc (setpoint_next s)\<rparr>))
             else Inl DatabaseError)
          else Inl e)"

text \<open>
  \<open>setpoint.save()\<close>: writes the fields to the row of that key, auto_now restamps it;
  the UPDATE raises when the backend refuses the temperature.
\<close>

definition save_setpoint :: "platform \<Rightarrow> datetime \<Rightarrow> TemperatureSetpoint \<Rightarrow> store \<Rightarrow> exn + store" where
  "save_setpoint pf now r s =
     (if db_accepts pf (setpoint_temperature r) then
        Inr (s\<lparr>setpoint_rows :=
               map (\<lambda>x. if sp_id x = sp_id r then r\<lparr>updated_at := now\<rparr> else x)
                 (setpoint_rows s)\<rparr>)
      else Inl DatabaseError)"

section \<open>Requests and responses\<close>

datatype http_method = GET | POST | PUT | PATCH | DELETE | HEAD

text \<open>
  A request to one of the two session views: \<open>user\<close> is \<open>None\<close> for an anonymous
  visitor, \<open>body\<close> is what \<open>json.loads(request.body)\<close> returns, \<open>None\<close> when it raises.
\<close>

record request =
  request_method :: http_method
  user :: "user option"
  body :: "json option"

text \<open>
  A request as a REST view sees it once \<open>@api_view\<close> has dispatched it (the decorator
  answers other methods itself, so the test \<open>request.method == 'POST'\<close> in
  \<open>api_sensor_data\<close> holds whenever it runs): \<open>data\<close> is \<open>request.data\<close>, \<open>None\<close>
  when parsing the body raises; \<open>query_params\<close> maps a key to the value \<open>.get\<close> reads.
\<close>

record api_request =
  data :: "json option"
  query_params :: "string \<Rightarrow> string option"

datatype err = Msg string | Raised exn

text \<open>
  The payload of each response, one constructor per shape. The human-readable
  \<open>message\<close> texts are left out; \<open>Raised e\<close> stands for \<open>str(e)\<close>.
\<close>

datatype payload =
    Error err
  | Failure err
  | SetpointUpdated pyfloat
  | DeviceSwitched string bool
  | SensorRecorded nat datetime
  | Setpoint pyfloat "datetime option"
  | DeviceStatus bool "datetime option" bool "datetime option"
  | LatestReading pyfloat pyfloat datetime
  | RedirectToLogin
  | NotAllowed

datatype response = Response (status: nat) (content: payload)

definition VALID_API_KEY :: string where
  "VALID_API_KEY = ''your_rpi_api_key_12345''"

text \<open>\<open>request.query_params.get(k, '')\<close>.\<close>

definition query_get :: "api_request \<Rightarrow> string \<Rightarrow> string" where
  "query_get request k = (case query_params request k of None \<Rightarrow> [] | Some v \<Rightarrow> v)"

section \<open>Admin control views (api/views.py)\<close>

text \<open>
  Every view takes the clock reading of the request and the store, and returns its
  response with the store it leaves behind. \<open>@login_required\<close> sends an anonymous
  visitor to the login page, then \<open>@require_http_methods(["POST"])\<close> refuses any other
  method; the body of the view runs inside \<open>try\<close>, and \<open>except Exception\<close> turns
  whatever is raised into a 400 response, keeping what was saved before.
\<close>

definition update_setpoint ::
    "platform \<Rightarrow> datetime \<Rightarrow> request \<Rightarrow> store \<Rightarrow> response \<times> store" where
  "update_setpoint pf now request s =
     (case user request of
        None \<Rightarrow> (Response 302 RedirectToLogin, s)
      | Some u \<Rightarrow>
          if request_method request \<noteq> POST then (Response 405 NotAllowed, s)
          else
            (case body request of
               None \<Rightarrow> (Response 400 (Failure (Raised JSONDecodeError)), s)
             | Some parsed \<Rightarrow>
                 (case dict_get parsed ''setpoint'' (JFloat (Finite 25)) of
                    Inl e \<Rightarrow> (Response 400 (Failure (Raised e)), s)
                  | Inr v \<Rightarrow>
                      (case py_float pf v of
                         Inl e \<Rightarrow> (Response 400 (Failure (Raised e)), s)
                       | Inr new_setpoint \<Rightarrow>
                           (case get_or_create_setpoint pf now new_setpoint u s of
                              Inl e \<Rightarrow> (Response 400 (Failure (Raised e)), s)
                            | Inr (setpoint, s1) \<Rightarrow>
                                (case save_setpoint pf now
                                        (setpoint\<lparr>setpoint_temperature := new_setpoint,
                                                  created_by := Some u\<rparr>) s1 of
                                   Inl e \<Rightarrow> (Response 400 (Failure (Raised e)), s1)
                                 | Inr s2 \<Rightarrow>
                                     (Response 200 (SetpointUpdated new_setpoint), s2)))))))"

text \<open>
  In \<open>control_device\<close> a value that is not a str is in no list of strs, so only a
  str reaches \<open>get_or_create\<close>. The row is saved before the message is formatted:
  \<open>action.upper()\<close> raises AttributeError on anything but a str, after the save.
\<close>

definition control_device :: "datetime \<Rightarrow> request \<Rightarrow> store \<Rightarrow> response \<times> store" where
  "control_device now request s =
     (case user request of
        None \<Rightarrow> (Response 302 RedirectToLogin, s)
      | Some u \<Rightarrow>
          if request_method request \<noteq> POST then (Response 405 NotAllowed, s)
          else
            (case body request of
               None \<Rightarrow> (Response 400 (Failure (Raised JSONDecodeError)), s)
             | Some parsed \<Rightarrow>
                 (case dict_get parsed ''device'' JNull of
                    Inl e \<Rightarrow> (Response 400 (Failure (Raised e)), s)
                  | Inr dev \<Rightarrow>
                      (case dict_get parsed ''action'' JNull of
                         Inl e \<Rightarrow> (Response 400 (Failure (Raised e)), s)
                       | Inr action \<Rightarrow>
                           (case dev of
                              JStr d \<Rightarrow>
                                if d \<notin> set [''fan'', ''heater'']
                                then (Response 400 (Failure (Msg ''Invalid device'')), s)
                                else
                                  (case get_or_create_device now d s of
                                     Inl e \<Rightarrow> (Response 400 (Failure (Raised e)), s)
                                   | Inr (device_obj, s1) \<Rightarrow>
                                       (let obj = device_obj\<lparr>is_on := (action = JStr ''on'')\<rparr>;
                                            s2 = save_device now obj s1
                                        in case action of
                                             JStr a \<Rightarrow> (Response 200 (DeviceSwitched d (is_on obj)), s2)
                                           | _ \<Rightarrow> (Response 400 (Failure (Raised AttributeError)), s2)))
                            | _ \<Rightarrow> (Response 400 (Failure (Msg ''Invalid device'')), s))))))"

section \<open>REST endpoints for the Raspberry Pi (api/views.py)\<close>

text \<open>
  The answer of a REST view is the \<open>Response\<close> it returns. Writing it out as JSON is
  the framework's step after the view has returned and is not modelled; a renderer in
  strict mode cannot write \<open>inf\<close> or \<open>nan\<close>, so what is proved below of a stored
  float that a read returns is proved for finite values.
\<close>

definition api_sensor_data ::
    "platform \<Rightarrow> datetime \<Rightarrow> api_request \<Rightarrow> store \<Rightarrow> response \<times> store" where
  "api_sensor_data pf now request s =
     (case data request of
        None \<Rightarrow> (Response 400 (Error (Raised ParseError)), s)
      | Some d \<Rightarrow>
          (case dict_get d ''temperature'' JNull of
             Inl e \<Rightarrow> (Response 400 (Error (Raised e)), s)
           | Inr temp \<Rightarrow>
               (case dict_get d ''humidity'' JNull of
                  Inl e \<Rightarrow> (Response 400 (Error (Raised e)), s)
                | Inr hum \<Rightarrow>
                    (case dict_get d ''api_key'' (JStr []) of
                       Inl e \<Rightarrow> (Response 400 (Error (Raised e)), s)
                     | Inr api_key \<Rightarrow>
                         if api_key \<noteq> JStr VALID_API_KEY
                         then (Response 401 (Error (Msg ''Invalid API key'')), s)
                         else if temp = JNull \<or> hum = JNull
                         then (Response 400 (Error (Msg ''Missing temperature or humidity'')), s)
                         else
                           (case py_float pf temp of
                              Inl e \<Rightarrow> (Response 400 (Error (Raised e)), s)
                            | Inr t \<Rightarrow>
                                (case py_float pf hum of
                                   Inl e \<Rightarrow> (Response 400 (Error (Raised e)), s)
                                 | Inr h \<Rightarrow>
                                     (case create_sensor pf now t h s of
                                        Inl e \<Rightarrow> (Response 400 (Error (Raised e)), s)
                                      | Inr (sensor_data, s1) \<Rightarrow>
                                          (Response 201
                                             (SensorRecorded (sd_id sensor_data)
                                                (timestamp sensor_data)), s1))))))))"

definition api_get_setpoint :: "api_request \<Rightarrow> store \<Rightarrow> response \<times> store" where
  "api_get_setpoint request s =
     (if query_get request ''api_key'' \<noteq> VALID_API_KEY
      then (Response 401 (Error (Msg ''Invalid API key'')), s)
      else
        (case first_desc updated_at (filter is_active (setpoint_rows s)) of
           Some setpoint \<Rightarrow>
             (Response 200
                (Setpoint (setpoint_temperature setpoint) (Some (updated_at setpoint))), s)
         | None \<Rightarrow> (Response 200 (Setpoint (Finite 25) None), s)))"

definition api_get_device_status :: "api_request \<Rightarrow> store \<Rightarrow> response \<times> store" where
  "api_get_device_status request s =
     (if query_get request ''api_key'' \<noteq> VALID_API_KEY
      then (Response 401 (Error (Msg ''Invalid API key'')), s)
      else
        (let fan = first_by_pk dc_id (filter (\<lambda>r. device r = ''fan'') (device_rows s));
             heater = first_by_pk dc_id (filter (\<lambda>r. device r = ''heater'') (device_rows s))
         in (Response 200
               (DeviceStatus
                  (case fan of Some r \<Rightarrow> is_on r | None \<Rightarrow> False)
                  (case fan of Some r \<Rightarrow> Some (last_updated r) | None \<Rightarrow> None)
                  (case heater of Some r \<Rightarrow> is_on r | None \<Rightarrow> False)
                  (case heater of Some r \<Rightarrow> Some (last_updated r) | None \<Rightarrow> None)), s)))"

definition api_latest_sensor_data :: "api_request \<Rightarrow> store \<Rightarrow> response \<times> store" where
  "api_latest_sensor_data request s =
     (if query_get request ''api_key'' \<noteq> VALID_API_KEY
      then (Response 401 (Error (Msg ''Invalid API key'')), s)
      else
        (case first_desc timestamp (sensor_rows s) of
           Some sensor_data \<Rightarrow>
             (Response 200
                (LatestReading (temperature sensor_data) (humidity sensor_data)
                   (timestamp sensor_data)), s)
         | None \<Rightarrow> (Response 404 (Error (Msg ''No sensor data available'')), s)))"

section \<open>Table constraints and the vocabulary of the properties\<close>

text \<open>
  What the database guarantees of a table: primary keys are distinct and below the
  auto-increment counter.
\<close>

definition pk_ok :: "('r \<Rightarrow> nat) \<Rightarrow> 'r list \<Rightarrow> nat \<Rightarrow> bool" where
  "pk_ok pk rows nxt \<longleftrightarrow> distinct (map pk rows) \<and> (\<forall>r \<in> set rows. pk r < nxt)"

text \<open>\<open>unique_together = ('device',)\<close>: no two rows of DeviceControl name the same device.\<close>

definition device_table_ok :: "store \<Rightarrow> bool" where
  "device_table_ok s \<longleftrightarrow>
     pk_ok dc_id (device_rows s) (device_next s) \<and> distinct (map device (device_rows s))"

text \<open>A sequence of calls of \<open>control_device\<close>, each with its clock reading.\<close>

fun control_device_calls :: "(datetime \<times> request) list \<Rightarrow> store \<Rightarrow> store" where
  "control_device_calls [] s = s"
| "control_device_calls ((now, r) # cs) s = control_device_calls cs (snd (control_device now r s))"

text \<open>
  A value a view can store: \<open>float()\<close> converts it and the database takes the result.
  A field of a dict body is accepted when it is present with such a value.
\<close>

definition value_accepted :: "platform \<Rightarrow> json \<Rightarrow> bool" where
  "value_accepted pf v \<longleftrightarrow>
     (case py_float pf v of Inl e \<Rightarrow> False | Inr f \<Rightarrow> db_accepts pf f)"

definition field_accepted :: "platform \<Rightarrow> (string \<times> json) list \<Rightarrow> string \<Rightarrow> bool" where
  "field_accepted pf kvs k \<longleftrightarrow>
     (case map_of kvs k of None \<Rightarrow> False | Some v \<Rightarrow> value_accepted pf v)"

text \<open>The value \<open>data.get('setpoint', 25.0)\<close> reads from a dict.\<close>

definition setpoint_field :: "(string \<times> json) list \<Rightarrow> json" where
  "setpoint_field kvs =
     (case map_of kvs ''setpoint'' of None \<Rightarrow> JFloat (Finite 25) | Some v \<Rightarrow> v)"

section \<open>Example platform, stores and requests\<close>

text \<open>
  A platform for the examples: its \<open>float\<close> agrees with Python's on the strings the
  examples use, its database refuses \<open>inf\<close> and \<open>nan\<close>.
\<close>

definition example_platform :: platform where
  "example_platform =
     \<lparr>str_to_float = (\<lambda>s. if s = ''25.5'' then Some (Finite 25.5)
                           else if s = ''nan'' then Some NaN else None),
      stores_nonfinite = (\<lambda>f. False)\<rparr>"

text \<open>An integer beyond the range of a double.\<close>

definition huge_int :: int where
  "huge_int = 10 ^ 400"

definition example_store :: store where
  "example_store =
     \<lparr>sensor_rows =
        [\<lparr>sd_id = 1, temperature = Finite 24, humidity = Finite 55, timestamp = 3\<rparr>],
      sensor_next = 2,
      device_rows = [\<lparr>dc_id = 1, device = ''fan'', is_on = True, last_updated = 2\<rparr>],
      device_next = 2,
      setpoint_rows = [\<lparr>sp_id = 1, setpoint_temperature = Finite 26, created_by = Some 1,
                        created_at = 1, updated_at = 4, is_active = True\<rparr>],
      setpoint_next = 2\<rparr>"

definition inactive_store :: store where
  "inactive_store =
     example_store\<lparr>setpoint_rows :=
        [\<lparr>sp_id = 1, setpoint_temperature = Finite 26, created_by = Some 1,
          created_at = 1, updated_at = 4, is_active = False\<rparr>]\<rparr>"

definition two_active_store :: store where
  "two_active_store =
     example_store\<lparr>setpoint_rows :=
        [\<lparr>sp_id = 1, setpoint_temperature = Finite 26, created_by = Some 1,
          created_at = 1, updated_at = 4, is_active = True\<rparr>,
         \<lparr>sp_id = 2, setpoint_temperature = Finite 28, created_by = Some 2,
          created_at = 5, updated_at = 5, is_active = True\<rparr>],
        setpoint_next := 3\<rparr>"

definition three_setpoints_store :: store where
  "three_setpoints_store =
     example_store\<lparr>setpoint_rows :=
        [\<lparr>sp_id = 1, setpoint_temperature = Finite 26, created_by = Some 1,
          created_at = 1, updated_at = 4, is_active = True\<rparr>,
         \<lparr>sp_id = 2, setpoint_temperature = Finite 27, created_by = Some 1,
          created_at = 5, updated_at = 6, is_active = False\<rparr>,
         \<lparr>sp_id = 3, setpoint_temperature = Finite 28, created_by = Some 2,
          created_at = 7, updated_at = 8, is_active = True\<rparr>],
        setpoint_next := 4\<rparr>"

definition keyed_query :: api_request where
  "keyed_query = \<lparr>data = None, query_params = [''api_key'' \<mapsto> VALID_API_KEY]\<rparr>"

definition wrong_key_request :: api_request where
  "wrong_key_request =
     \<lparr>data = Some (JObj [(''temperature'', JFloat (Finite 25.5)), (''humidity'', JInt 60),
                          (''api_key'', JStr ''wrong'')]),
      query_params = [''api_key'' \<mapsto> ''wrong'']\<rparr>"

definition sensor_push :: "json \<Rightarrow> json \<Rightarrow> api_request" where
  "sensor_push t h =
     \<lparr>data = Some (JObj [(''temperature'', t), (''humidity'', h),
                          (''api_key'', JStr VALID_API_KEY)]),
      query_params = Map.empty\<rparr>"

definition fan_on_request :: request where
  "fan_on_request =
     \<lparr>request_method = POST, user = Some 1,
      body = Some (JObj [(''device'', JStr ''fan''), (''action'', JStr ''on'')])\<rparr>"

definition setpoint_request :: "json \<Rightarrow> request" where
  "setpoint_request v =
     \<lparr>request_method = POST, user = Some 1, body = Some (JObj [(''setpoint'', v)])\<rparr>"

section \<open>Facts about the ORM model\<close>


lemma first_desc_strict_max:
  "x \<in> set xs \<Longrightarrow> \<forall>y \<in> set xs. y \<noteq> x \<longrightarrow> key y < key x \<Longrightarrow> first_desc key xs = Some x"
proof (induction xs)
  case Nil
  then show ?case by simp
next
  case (Cons a xs)
  show ?case
  proof (cases "x \<in> set xs")
    case True
    with Cons have "first_desc key xs = Some x" by auto
    moreover have "a \<noteq> x \<Longrightarrow> key a < key x" using Cons.prems by auto
    ultimately show ?thesis by auto
  next
    case False
    with Cons.prems have ax: "a = x" by auto
    have "\<forall>y \<in> set xs. key y < key x" using Cons.prems False by auto
    then have "first_desc key xs = None \<or> (\<exists>y. first_desc key xs = Some y \<and> key y < key x)"
      by (induction xs) (auto split: option.splits)
    with ax show ?thesis by auto
  qed
qed

lemma filter_unique:
  "distinct (map f xs) \<Longrightarrow> x \<in> set xs \<Longrightarrow> filter (\<lambda>y. f y = f x) xs = [x]"
proof (induction xs)
  case Nil
  then show ?case by simp
next
  case (Cons a xs)
  show ?case
  proof (cases "a = x")
    case True
    with Cons.prems have "\<forall>y \<in> set xs. f y \<noteq> f x" by (auto simp: image_iff)
    then have "filter (\<lambda>y. f y = f x) xs = []" by (simp add: filter_empty_conv)
    with True show ?thesis by simp
  next
    case False
    with Cons.prems have "x \<in> set xs" "f a \<noteq> f x" by (auto simp: image_iff)
    with Cons show ?thesis by simp
  qed
qed

lemma map_replace_by_key:
  "distinct (map f xs) \<Longrightarrow> i < length xs \<Longrightarrow>
     map (\<lambda>y. if f y = f (xs ! i) then z else y) xs = xs[i := z]"
proof (induction xs arbitrary: i)
  case Nil
  then show ?case by simp
next
  case (Cons a xs)
  show ?case
  proof (cases i)
    case 0
    have "\<forall>y \<in> set xs. f y \<noteq> f a" using Cons.prems by (auto simp: image_iff)
    then have "map (\<lambda>y. if f y = f a then z else y) xs = xs" by (simp add: map_idI)
    with 0 show ?thesis by simp
  next
    case (Suc j)
    with Cons.prems have "j < length xs" "f a \<noteq> f (xs ! j)" by (auto simp: image_iff)
    with Cons Suc show ?thesis by simp
  qed
qed

section \<open>Facts about float()\<close>

lemma float_of_int_small:
  assumes "\<bar>n\<bar> < 2 ^ 53"
  shows "float_of_int n = Inr (Finite (of_int n))"
proof -
  have "bitlen \<bar>n\<bar> \<le> 53"
    using assms by (simp add: bitlen_le_iff_power)
  then have m: "nearest_double \<bar>n\<bar> = \<bar>n\<bar>" by (simp add: nearest_double_def)
  have "\<bar>n\<bar> < 2 ^ 1024" using assms by (rule less_trans) simp
  then have "\<not> (2 ^ 1024 \<le> \<bar>n\<bar>)" by simp
  then show ?thesis
    unfolding float_of_int_def m Let_def by (simp add: abs_if)
qed

lemma nearest_double_lower:
  assumes "0 < m"
  shows "2 ^ nat (bitlen m - 1) \<le> nearest_double m"
proof (cases "bitlen m \<le> 53")
  case True
  with bitlen_bounds [OF assms] show ?thesis by (simp add: nearest_double_def)
next
  case False
  define e where "e = nat (bitlen m - 53)"
  define q where "q = m div 2 ^ e"
  have b: "nat (bitlen m - 1) = 52 + e" using False by (simp add: e_def)
  from bitlen_bounds [OF assms] have "2 ^ (52 + e) \<le> m" unfolding b by simp
  then have "(2::int) ^ 52 * 2 ^ e \<le> m" by (simp add: power_add)
  then have "(2::int) ^ 52 \<le> q"
    unfolding q_def by (metis zdiv_mono1 zero_less_numeral zero_less_power nonzero_mult_div_cancel_right power_not_zero zero_neq_numeral)
  then have A: "(2::int) ^ 52 * 2 ^ e \<le> q * 2 ^ e" by (rule mult_right_mono) simp
  have B: "q * 2 ^ e \<le> nearest_double m"
    using False by (simp add: nearest_double_def Let_def e_def [symmetric] q_def [symmetric])
  have "(2::int) ^ (52 + e) = 2 ^ 52 * 2 ^ e" by (rule power_add)
  with order_trans [OF A B] show ?thesis unfolding b by (simp only:)
qed

lemma float_of_int_huge:
  assumes "2 ^ 1024 \<le> \<bar>n\<bar>"
  shows "float_of_int n = Inl OverflowError"
proof -
  let ?m = "\<bar>n\<bar>"
  have pos: "0 < ?m" using assms by (smt (verit) zero_less_power)
  have "\<not> bitlen ?m \<le> 1024"
    using assms by (simp add: bitlen_le_iff_power)
  then have "1024 \<le> nat (bitlen ?m - 1)" by simp
  then have "(2::int) ^ 1024 \<le> 2 ^ nat (bitlen ?m - 1)"
    by (rule power_increasing) simp_all
  from this nearest_double_lower [OF pos] have "2 ^ 1024 \<le> nearest_double ?m"
    by (rule order_trans)
  then show ?thesis by (simp add: float_of_int_def Let_def)
qed

text \<open>The conversion at the edges: beyond the double range, and where it rounds.\<close>

lemma float_of_int_beyond_range: "float_of_int huge_int = Inl OverflowError"
  unfolding huge_int_def by (rule float_of_int_huge) simp

lemma float_of_int_rounds: "float_of_int (2 ^ 53 + 1) = Inr (Finite (2 ^ 53))"
  by code_simp

lemma db_accepts_finite [simp]: "db_accepts pf (Finite x)"
  by (simp add: db_accepts_def)


section \<open>The shared-secret gate\<close>

text \<open>
  A sensor push whose body is a list, not a dict: \<open>request.data.get\<close> raises before
  the key is looked at, and the view answers 400, not 401. The same holds of a body
  that cannot be parsed.
\<close>

theorem push_without_dict_counterexample:
  "api_sensor_data example_platform 7
      \<lparr>data = Some (JArr [JStr ''wrong'']), query_params = Map.empty\<rparr> example_store
     = (Response 400 (Error (Raised AttributeError)), example_store)
   \<and> api_sensor_data example_platform 7
      \<lparr>data = None, query_params = Map.empty\<rparr> example_store
     = (Response 400 (Error (Raised ParseError)), example_store)"
  by (simp add: api_sensor_data_def dict_get_def)

text \<open>
  Claim C3, amended for the push. A request to one of the three read endpoints whose
  api_key query parameter is not the configured secret, and a sensor push whose body
  is a dict (or form) whose api_key entry is not the secret (\<open>''\<close> when absent), is
  answered with 401 and the error \<open>Invalid API key\<close>, whatever else the body or the
  query holds, and the store stays as it was. A push whose body cannot be parsed or is
  no dict is answered with 400 before the key is looked at; the store stays as it was.
\<close>

theorem invalid_api_key_unauthorized:
  "(data r = Some d \<and> dict_get d ''api_key'' (JStr []) = Inr k \<and> k \<noteq> JStr VALID_API_KEY
      \<longrightarrow> api_sensor_data pf now r s = (Response 401 (Error (Msg ''Invalid API key'')), s))
   \<and> (data r = None
      \<longrightarrow> api_sensor_data pf now r s = (Response 400 (Error (Raised ParseError)), s))
   \<and> (data r = Some d \<and> (\<forall>kvs. d \<noteq> JObj kvs)
      \<longrightarrow> api_sensor_data pf now r s = (Response 400 (Error (Raised AttributeError)), s))
   \<and> (query_get r ''api_key'' \<noteq> VALID_API_KEY
      \<longrightarrow> api_get_setpoint r s = (Response 401 (Error (Msg ''Invalid API key'')), s)
        \<and> api_get_device_status r s = (Response 401 (Error (Msg ''Invalid API key'')), s)
        \<and> api_latest_sensor_data r s = (Response 401 (Error (Msg ''Invalid API key'')), s))"
proof (intro conjI impI)
  assume h: "data r = Some d \<and> dict_get d ''api_key'' (JStr []) = Inr k \<and> k \<noteq> JStr VALID_API_KEY"
  then obtain kvs where d: "d = JObj kvs"
    by (cases d) (simp_all add: dict_get_def)
  with h show "api_sensor_data pf now r s = (Response 401 (Error (Msg ''Invalid API key'')), s)"
    by (simp add: api_sensor_data_def dict_get_def)
next
  assume "data r = None"
  then show "api_sensor_data pf now r s = (Response 400 (Error (Raised ParseError)), s)"
    by (simp add: api_sensor_data_def)
next
  assume "data r = Some d \<and> (\<forall>kvs. d \<noteq> JObj kvs)"
  then show "api_sensor_data pf now r s = (Response 400 (Error (Raised AttributeError)), s)"
    by (cases d) (simp_all add: api_sensor_data_def dict_get_def)
next
  assume "query_get r ''api_key'' \<noteq> VALID_API_KEY"
  then show "api_get_setpoint r s = (Response 401 (Error (Msg ''Invalid API key'')), s)"
    by (simp add: api_get_setpoint_def)
next
  assume "query_get r ''api_key'' \<noteq> VALID_API_KEY"
  then show "api_get_device_status r s = (Response 401 (Error (Msg ''Invalid API key'')), s)"
    by (simp add: api_get_device_status_def)
next
  assume "query_get r ''api_key'' \<noteq> VALID_API_KEY"
  then show "api_latest_sensor_data r s = (Response 401 (Error (Msg ''Invalid API key'')), s)"
    by (simp add: api_latest_sensor_data_def)
qed

theorem invalid_api_key_unauthorized_witness:
  "dict_get (JObj [(''temperature'', JFloat (Finite 25.5)), (''humidity'', JInt 60),
                   (''api_key'', JStr ''wrong'')]) ''api_key'' (JStr []) = Inr (JStr ''wrong'')
   \<and> JStr ''wrong'' \<noteq> JStr VALID_API_KEY
   \<and> query_get wrong_key_request ''api_key'' \<noteq> VALID_API_KEY
   \<and> api_sensor_data example_platform 7 wrong_key_request example_store
      = (Response 401 (Error (Msg ''Invalid API key'')), example_store)
   \<and> api_sensor_data example_platform 7
        \<lparr>data = Some (JStr ''wrong''), query_params = Map.empty\<rparr> example_store
      = (Response 400 (Error (Raised AttributeError)), example_store)
   \<and> api_sensor_data example_platform 7
        \<lparr>data = None, query_params = Map.empty\<rparr> example_store
      = (Response 400 (Error (Raised ParseError)), example_store)
   \<and> api_get_setpoint wrong_key_request example_store
      = (Response 401 (Error (Msg ''Invalid API key'')), example_store)
   \<and> api_get_device_status wrong_key_request example_store
      = (Response 401 (Error (Msg ''Invalid API key'')), example_store)
   \<and> api_latest_sensor_data wrong_key_request example_store
      = (Response 401 (Error (Msg ''Invalid API key'')), example_store)"
  using invalid_api_key_unauthorized [of wrong_key_request
      "JObj [(''temperature'', JFloat (Finite 25.5)), (''humidity'', JInt 60),
             (''api_key'', JStr ''wrong'')]"
      "JStr ''wrong''" example_platform 7 example_store]
    invalid_api_key_unauthorized [of
      "\<lparr>data = Some (JStr ''wrong''), query_params = Map.empty\<rparr>" "JStr ''wrong''"
      "JStr ''wrong''" example_platform 7 example_store]
    invalid_api_key_unauthorized [of
      "\<lparr>data = None, query_params = Map.empty\<rparr>" "JStr ''wrong''"
      "JStr ''wrong''" example_platform 7 example_store]
  by (simp add: wrong_key_request_def dict_get_def query_get_def VALID_API_KEY_def)

section \<open>Reading the setpoint\<close>

text \<open>
  Claim C5. When no TemperatureSetpoint row is active, \<open>api_get_setpoint\<close> (called
  with the right key) answers with the default setpoint 25.0 and no \<open>updated_at\<close>,
  and the store stays as it was: the default is made up for the answer, not stored.
\<close>

theorem default_setpoint_not_stored:
  assumes "query_get r ''api_key'' = VALID_API_KEY"
    and "\<forall>x \<in> set (setpoint_rows s). \<not> is_active x"
  shows "api_get_setpoint r s = (Response 200 (Setpoint (Finite 25) None), s)"
proof -
  from assms(2) have "filter is_active (setpoint_rows s) = []"
    by (simp add: filter_empty_conv)
  with assms(1) show ?thesis by (simp add: api_get_setpoint_def)
qed

theorem default_setpoint_not_stored_witness:
  "query_get keyed_query ''api_key'' = VALID_API_KEY
   \<and> filter is_active (setpoint_rows inactive_store) = []
   \<and> api_get_setpoint keyed_query inactive_store = (Response 200 (Setpoint (Finite 25) None), inactive_store)"
proof -
  have k: "query_get keyed_query ''api_key'' = VALID_API_KEY"
    by (simp add: keyed_query_def query_get_def)
  have n: "\<forall>x \<in> set (setpoint_rows inactive_store). \<not> is_active x"
    by (simp add: inactive_store_def example_store_def)
  from k n default_setpoint_not_stored [OF k n] show ?thesis
    by (simp add: filter_empty_conv)
qed


section \<open>Recording a sensor reading\<close>

lemma api_sensor_data_keyed:
  assumes "data r = Some (JObj kvs)"
    and "map_of kvs ''api_key'' = Some (JStr VALID_API_KEY)"
    and "map_of kvs ''temperature'' = Some tv" and "map_of kvs ''humidity'' = Some hv"
    and "py_float pf tv = Inr t" and "py_float pf hv = Inr h"
  shows "api_sensor_data pf now r s =
     (case create_sensor pf now t h s of
        Inl e \<Rightarrow> (Response 400 (Error (Raised e)), s)
      | Inr (sensor_data, s1) \<Rightarrow>
          (Response 201 (SensorRecorded (sd_id sensor_data) (timestamp sensor_data)), s1))"
proof -
  have "tv \<noteq> JNull" and "hv \<noteq> JNull" using assms(5,6) by auto
  with assms show ?thesis by (simp add: api_sensor_data_def dict_get_def)
qed

text \<open>
  A JSON boolean is not a number, yet the push is not refused: \<open>float(True)\<close> is 1.0,
  the view answers 201 and the row is stored.
\<close>

theorem sensor_data_boolean_counterexample:
  "api_sensor_data example_platform 7 (sensor_push (JBool True) (JInt 60)) example_store
     = (Response 201 (SensorRecorded 2 7),
        example_store\<lparr>sensor_rows :=
            [\<lparr>sd_id = 1, temperature = Finite 24, humidity = Finite 55, timestamp = 3\<rparr>,
             \<lparr>sd_id = 2, temperature = Finite 1, humidity = Finite 60, timestamp = 7\<rparr>],
          sensor_next := 3\<rparr>)"
proof -
  have "py_float example_platform (JInt 60) = Inr (Finite 60)"
    using float_of_int_small [of 60] by simp
  then show ?thesis
    by (simp add: api_sensor_data_keyed [where kvs = "[(''temperature'', JBool True),
            (''humidity'', JInt 60), (''api_key'', JStr VALID_API_KEY)]"
          and tv = "JBool True" and hv = "JInt 60" and t = "Finite 1" and h = "Finite 60"]
        sensor_push_def create_sensor_def example_store_def Let_def)
qed

text \<open>
  Claim C6, amended. \<open>api_sensor_data\<close>, called with the right key and a dict body,
  answers 400 and creates no SensorData row whenever the temperature or the humidity
  is missing (or null), is a value \<open>float()\<close> rejects (a list, a dict, a string that
  is no float literal, an int beyond the double range), or converts to a float the
  database refuses; in every other case it answers 201. A JSON boolean is not
  rejected: \<open>float()\<close> converts it.
\<close>

theorem sensor_data_rejects_bad_fields:
  assumes "data r = Some (JObj kvs)"
    and "map_of kvs ''api_key'' = Some (JStr VALID_API_KEY)"
  shows "(\<not> field_accepted pf kvs ''temperature'' \<or> \<not> field_accepted pf kvs ''humidity''
            \<longrightarrow> (\<exists>e. api_sensor_data pf now r s = (Response 400 (Error e), s)))
       \<and> (field_accepted pf kvs ''temperature'' \<and> field_accepted pf kvs ''humidity''
            \<longrightarrow> status (fst (api_sensor_data pf now r s)) = 201)"
  using assms
  by (auto simp: api_sensor_data_def dict_get_def field_accepted_def value_accepted_def
           create_sensor_def Let_def
           split: option.splits sum.splits prod.splits if_splits)

theorem sensor_data_rejects_bad_fields_witness:
  "\<not> field_accepted example_platform [(''temperature'', JStr ''warm''), (''humidity'', JInt 60),
        (''api_key'', JStr VALID_API_KEY)] ''temperature''
   \<and> \<not> value_accepted example_platform (JInt huge_int)
   \<and> \<not> value_accepted example_platform (JStr ''nan'')
   \<and> (\<exists>e. api_sensor_data example_platform 7 (sensor_push (JStr ''warm'') (JInt 60)) example_store
          = (Response 400 (Error e), example_store))
   \<and> (\<exists>e. api_sensor_data example_platform 7 (sensor_push (JInt huge_int) (JInt 60))
            example_store
          = (Response 400 (Error e), example_store))
   \<and> (\<exists>e. api_sensor_data example_platform 7 (sensor_push (JStr ''25.5'') (JStr ''nan''))
            example_store
          = (Response 400 (Error e), example_store))
   \<and> status (fst (api_sensor_data example_platform 7
        (sensor_push (JStr ''25.5'') (JInt 60)) example_store)) = 201"
proof -
  have sixty: "py_float example_platform (JInt 60) = Inr (Finite 60)"
    using float_of_int_small [of 60] by simp
  have warm: "\<not> value_accepted example_platform (JStr ''warm'')"
    by (simp add: value_accepted_def example_platform_def)
  have huge: "\<not> value_accepted example_platform (JInt huge_int)"
    by (simp add: value_accepted_def float_of_int_beyond_range)
  have nan: "\<not> value_accepted example_platform (JStr ''nan'')"
    by (simp add: value_accepted_def example_platform_def db_accepts_def)
  have good: "value_accepted example_platform (JStr ''25.5'')"
    "value_accepted example_platform (JInt 60)"
    using sixty by (simp_all add: value_accepted_def example_platform_def)
  note t = sensor_data_rejects_bad_fields [where pf = example_platform and now = 7
      and s = example_store]
  from warm t [of "sensor_push (JStr ''warm'') (JInt 60)"
      "[(''temperature'', JStr ''warm''), (''humidity'', JInt 60), (''api_key'', JStr VALID_API_KEY)]"]
  have a: "\<exists>e. api_sensor_data example_platform 7 (sensor_push (JStr ''warm'') (JInt 60))
      example_store = (Response 400 (Error e), example_store)"
    by (simp add: sensor_push_def field_accepted_def)
  from huge t [of "sensor_push (JInt huge_int) (JInt 60)"
      "[(''temperature'', JInt huge_int), (''humidity'', JInt 60),
        (''api_key'', JStr VALID_API_KEY)]"]
  have b: "\<exists>e. api_sensor_data example_platform 7 (sensor_push (JInt huge_int) (JInt 60))
      example_store = (Response 400 (Error e), example_store)"
    by (simp add: sensor_push_def field_accepted_def)
  from nan t [of "sensor_push (JStr ''25.5'') (JStr ''nan'')"
      "[(''temperature'', JStr ''25.5''), (''humidity'', JStr ''nan''),
        (''api_key'', JStr VALID_API_KEY)]"]
  have c: "\<exists>e. api_sensor_data example_platform 7 (sensor_push (JStr ''25.5'') (JStr ''nan''))
      example_store = (Response 400 (Error e), example_store)"
    by (simp add: sensor_push_def field_accepted_def)
  from good t [of "sensor_push (JStr ''25.5'') (JInt 60)"
      "[(''temperature'', JStr ''25.5''), (''humidity'', JInt 60),
        (''api_key'', JStr VALID_API_KEY)]"]
  have d: "status (fst (api_sensor_data example_platform 7
        (sensor_push (JStr ''25.5'') (JInt 60)) example_store)) = 201"
    by (simp add: sensor_push_def field_accepted_def)
  from warm have w: "\<not> field_accepted example_platform [(''temperature'', JStr ''warm''),
        (''humidity'', JInt 60), (''api_key'', JStr VALID_API_KEY)] ''temperature''"
    by (simp add: field_accepted_def)
  from w huge nan a b c d show ?thesis by blast
qed




section \<open>Reading the device states\<close>

text \<open>
  Claim C7. For each of \<open>fan\<close> and \<open>heater\<close>, \<open>api_get_device_status\<close> (called with
  the right key) returns the \<open>is_on\<close> and \<open>last_updated\<close> of the device's row when
  the table has one, and \<open>is_on = False\<close> with no \<open>last_updated\<close> when it has none;
  it creates no row: the store stays as it was.
\<close>

theorem device_status_stored_or_default:
  assumes "query_get r ''api_key'' = VALID_API_KEY"
    and "distinct (map device (device_rows s))"
  shows "\<exists>fan_on fan_at heater_on heater_at.
           api_get_device_status r s
             = (Response 200 (DeviceStatus fan_on fan_at heater_on heater_at), s)
           \<and> (\<forall>x \<in> set (device_rows s). device x = ''fan'' \<longrightarrow>
                  fan_on = is_on x \<and> fan_at = Some (last_updated x))
           \<and> ((\<forall>x \<in> set (device_rows s). device x \<noteq> ''fan'') \<longrightarrow>
                  fan_on = False \<and> fan_at = None)
           \<and> (\<forall>x \<in> set (device_rows s). device x = ''heater'' \<longrightarrow>
                  heater_on = is_on x \<and> heater_at = Some (last_updated x))
           \<and> ((\<forall>x \<in> set (device_rows s). device x \<noteq> ''heater'') \<longrightarrow>
                  heater_on = False \<and> heater_at = None)"
proof -
  have stored: "first_by_pk dc_id (filter (\<lambda>y. device y = d) (device_rows s)) = Some x"
    if "x \<in> set (device_rows s)" "device x = d" for x d
    using filter_unique [OF assms(2) that(1)] that(2) by simp
  have absent: "first_by_pk dc_id (filter (\<lambda>y. device y = d) (device_rows s)) = None"
    if "\<forall>x \<in> set (device_rows s). device x \<noteq> d" for d
    using that by (simp add: filter_empty_conv)
  let ?fan = "first_by_pk dc_id (filter (\<lambda>y. device y = ''fan'') (device_rows s))"
  let ?heater = "first_by_pk dc_id (filter (\<lambda>y. device y = ''heater'') (device_rows s))"
  have "api_get_device_status r s
      = (Response 200
           (DeviceStatus (case ?fan of Some x \<Rightarrow> is_on x | None \<Rightarrow> False)
              (case ?fan of Some x \<Rightarrow> Some (last_updated x) | None \<Rightarrow> None)
              (case ?heater of Some x \<Rightarrow> is_on x | None \<Rightarrow> False)
              (case ?heater of Some x \<Rightarrow> Some (last_updated x) | None \<Rightarrow> None)), s)"
    using assms(1) by (simp add: api_get_device_status_def Let_def)
  moreover have "\<forall>x \<in> set (device_rows s). device x = ''fan'' \<longrightarrow>
      (case ?fan of Some x \<Rightarrow> is_on x | None \<Rightarrow> False) = is_on x
      \<and> (case ?fan of Some x \<Rightarrow> Some (last_updated x) | None \<Rightarrow> None) = Some (last_updated x)"
    using stored by simp
  moreover have "(\<forall>x \<in> set (device_rows s). device x \<noteq> ''fan'') \<longrightarrow>
      (case ?fan of Some x \<Rightarrow> is_on x | None \<Rightarrow> False) = False
      \<and> (case ?fan of Some x \<Rightarrow> Some (last_updated x) | None \<Rightarrow> None) = None"
    using absent by simp
  moreover have "\<forall>x \<in> set (device_rows s). device x = ''heater'' \<longrightarrow>
      (case ?heater of Some x \<Rightarrow> is_on x | None \<Rightarrow> False) = is_on x
      \<and> (case ?heater of Some x \<Rightarrow> Some (last_updated x) | None \<Rightarrow> None) = Some (last_updated x)"
    using stored by simp
  moreover have "(\<forall>x \<in> set (device_rows s). device x \<noteq> ''heater'') \<longrightarrow>
      (case ?heater of Some x \<Rightarrow> is_on x | None \<Rightarrow> False) = False
      \<and> (case ?heater of Some x \<Rightarrow> Some (last_updated x) | None \<Rightarrow> None) = None"
    using absent by simp
  ultimately show ?thesis by blast
qed

theorem device_status_stored_or_default_witness:
  "query_get keyed_query ''api_key'' = VALID_API_KEY
   \<and> map device (device_rows example_store) = [''fan'']
   \<and> api_get_device_status keyed_query example_store
       = (Response 200 (DeviceStatus True (Some 2) False None), example_store)"
proof -
  have k: "query_get keyed_query ''api_key'' = VALID_API_KEY"
    by (simp add: keyed_query_def query_get_def)
  have d: "distinct (map device (device_rows example_store))"
    by (simp add: example_store_def)
  from device_status_stored_or_default [OF k d] obtain fan_on fan_at heater_on heater_at where
    "api_get_device_status keyed_query example_store
       = (Response 200 (DeviceStatus fan_on fan_at heater_on heater_at), example_store)"
    "\<forall>x \<in> set (device_rows example_store). device x = ''fan'' \<longrightarrow>
        fan_on = is_on x \<and> fan_at = Some (last_updated x)"
    "(\<forall>x \<in> set (device_rows example_store). device x \<noteq> ''heater'') \<longrightarrow>
        heater_on = False \<and> heater_at = None"
    by blast
  then show ?thesis using k by (simp add: example_store_def)
qed


section \<open>Switching a device\<close>

text \<open>
  Claim C8. \<open>control_device\<close>, called by a logged-in user with a device that is
  neither \<open>fan\<close> nor \<open>heater\<close> (or with none), answers 400 with the error
  \<open>Invalid device\<close>, and no DeviceControl row is created or changed.
\<close>

theorem control_device_invalid_device:
  assumes "map_of kvs ''device'' \<notin> {Some (JStr ''fan''), Some (JStr ''heater'')}"
  shows "control_device now \<lparr>request_method = POST, user = Some u, body = Some (JObj kvs)\<rparr> s
           = (Response 400 (Failure (Msg ''Invalid device'')), s)"
proof (cases "map_of kvs ''device''")
  case None
  then show ?thesis by (simp add: control_device_def dict_get_def)
next
  case (Some dev)
  with assms have "dev \<noteq> JStr ''fan''" "dev \<noteq> JStr ''heater''" by auto
  with Some show ?thesis
    by (cases dev) (simp_all add: control_device_def dict_get_def)
qed

theorem control_device_invalid_device_witness:
  "map_of [(''device'', JStr ''pump''), (''action'', JStr ''on'')] ''device''
      \<notin> {Some (JStr ''fan''), Some (JStr ''heater'')}
   \<and> control_device 7 \<lparr>request_method = POST, user = Some 1,
          body = Some (JObj [(''device'', JStr ''pump''), (''action'', JStr ''on'')])\<rparr> example_store
        = (Response 400 (Failure (Msg ''Invalid device'')), example_store)"
  using control_device_invalid_device [of "[(''device'', JStr ''pump''), (''action'', JStr ''on'')]"
      7 1 example_store]
  by simp


section \<open>One row per device\<close>

lemma pk_ok_inj:
  "pk_ok pk rows nxt \<Longrightarrow> x \<in> set rows \<Longrightarrow> y \<in> set rows \<Longrightarrow> pk y = pk x \<Longrightarrow> y = x"
  by (auto simp: pk_ok_def distinct_map inj_on_def)

lemma save_device_keeps_keys:
  assumes "pk_ok dc_id (device_rows s) (device_next s)" and "x \<in> set (device_rows s)"
  shows "map dc_id (device_rows (save_device now (x\<lparr>is_on := b\<rparr>) s)) = map dc_id (device_rows s)"
    and "map device (device_rows (save_device now (x\<lparr>is_on := b\<rparr>) s)) = map device (device_rows s)"
    and "device_next (save_device now (x\<lparr>is_on := b\<rparr>) s) = device_next s"
    and "x\<lparr>is_on := b, last_updated := now\<rparr> \<in> set (device_rows (save_device now (x\<lparr>is_on := b\<rparr>) s))"
proof -
  have same: "y = x" if "y \<in> set (device_rows s)" "dc_id y = dc_id x" for y
    using pk_ok_inj [OF assms(1) assms(2) that] .
  show "map dc_id (device_rows (save_device now (x\<lparr>is_on := b\<rparr>) s)) = map dc_id (device_rows s)"
    by (simp add: save_device_def)
  show "map device (device_rows (save_device now (x\<lparr>is_on := b\<rparr>) s)) = map device (device_rows s)"
    using same by (auto simp: save_device_def)
  show "device_next (save_device now (x\<lparr>is_on := b\<rparr>) s) = device_next s"
    by (simp add: save_device_def)
  show "x\<lparr>is_on := b, last_updated := now\<rparr> \<in> set (device_rows (save_device now (x\<lparr>is_on := b\<rparr>) s))"
    using assms(2) by (force simp: save_device_def image_iff)
qed

lemma get_or_create_device_ok:
  assumes "device_table_ok s" and "get_or_create_device now d s = Inr (obj, s1)"
  shows "device_table_ok s1" and "obj \<in> set (device_rows s1)" and "device obj = d"
proof -
  let ?m = "filter (\<lambda>r. device r = d) (device_rows s)"
  show "device_table_ok s1 "
  proof (cases ?m)
    case Nil
    then have absent: "d \<notin> set (map device (device_rows s))"
      by (auto simp: filter_empty_conv)
    from assms(1) have fresh: "device_next s \<notin> set (map dc_id (device_rows s))"
      by (auto simp: device_table_ok_def pk_ok_def)
    from assms(2) Nil have s1: "s1 = s\<lparr>device_rows := device_rows s @
          [\<lparr>dc_id = device_next s, device = d, is_on = False, last_updated = now\<rparr>],
        device_next := Suc (device_next s)\<rparr>"
      by (auto simp: get_or_create_device_def objects_get_def Let_def)
    from assms(1) absent fresh show ?thesis
      unfolding s1 by (simp add: device_table_ok_def pk_ok_def less_Suc_eq)
  next
    case (Cons a as)
    with assms show ?thesis
      by (cases as) (auto simp: get_or_create_device_def objects_get_def)
  qed
  show "obj \<in> set (device_rows s1)"
  proof (cases ?m)
    case Nil
    with assms show ?thesis
      by (auto simp: get_or_create_device_def objects_get_def Let_def)
  next
    case (Cons a as)
    then have "a \<in> set ?m" by simp
    then have "a \<in> set (device_rows s)" by simp
    with assms Cons show ?thesis
      by (cases as) (auto simp: get_or_create_device_def objects_get_def)
  qed
  show "device obj = d"
  proof (cases ?m)
    case Nil
    with assms show ?thesis
      by (auto simp: get_or_create_device_def objects_get_def Let_def)
  next
    case (Cons a as)
    then have "a \<in> set ?m" by simp
    then have "device a = d" by simp
    with assms Cons show ?thesis
      by (cases as) (auto simp: get_or_create_device_def objects_get_def)
  qed
qed

lemma get_or_create_device_total:
  assumes "distinct (map device (device_rows s))"
  shows "\<exists>obj s1. get_or_create_device now d s = Inr (obj, s1)"
proof (cases "\<exists>x \<in> set (device_rows s). device x = d")
  case True
  then obtain x where "x \<in> set (device_rows s)" "device x = d" by blast
  with filter_unique [OF assms, of x] show ?thesis
    by (auto simp: get_or_create_device_def objects_get_def)
next
  case False
  then have "filter (\<lambda>r. device r = d) (device_rows s) = []" by (simp add: filter_empty_conv)
  then show ?thesis by (simp add: get_or_create_device_def objects_get_def Let_def)
qed

text \<open>What a call that gets past the checks leaves behind.\<close>

lemma control_device_switch:
  assumes ok: "device_table_ok s"
    and d: "d \<in> {''fan'', ''heater''}"
    and dev: "map_of kvs ''device'' = Some (JStr d)"
    and s': "s' = snd (control_device now
                \<lparr>request_method = POST, user = Some u, body = Some (JObj kvs)\<rparr> s)"
    and a: "a = (case map_of kvs ''action'' of None \<Rightarrow> JNull | Some v \<Rightarrow> v)"
  shows "device_table_ok s'"
    and "\<exists>x. filter (\<lambda>r. device r = d) (device_rows s') = [x] \<and> is_on x = (a = JStr ''on'')
            \<and> last_updated x = now"
proof -
  from ok have dist: "distinct (map device (device_rows s))" by (simp add: device_table_ok_def)
  from get_or_create_device_total [OF dist] obtain obj s1
    where goc: "get_or_create_device now d s = Inr (obj, s1)" by blast
  note g = get_or_create_device_ok [OF ok goc]
  from g(1) have pk1: "pk_ok dc_id (device_rows s1) (device_next s1)"
    and dist1: "distinct (map device (device_rows s1))" by (simp_all add: device_table_ok_def)
  let ?b = "a = JStr ''on''"
  let ?s2 = "save_device now (obj\<lparr>is_on := ?b\<rparr>) s1"
  note k = save_device_keeps_keys [OF pk1 g(2), of now ?b]
  have s2: "s' = ?s2"
    using d dev goc unfolding s' a
    by (auto simp: control_device_def dict_get_def Let_def split: json.splits option.splits)
  show "device_table_ok s'"
    using pk1 dist1 k(1,2,3) unfolding s2 device_table_ok_def pk_ok_def
    by (metis (no_types, lifting) set_map imageE imageI)
  have "distinct (map device (device_rows ?s2))" using dist1 k(2) by simp
  from filter_unique [OF this k(4)] g(3)
  have "filter (\<lambda>r. device r = d) (device_rows ?s2) = [obj\<lparr>is_on := ?b, last_updated := now\<rparr>]"
    by simp
  then show "\<exists>x. filter (\<lambda>r. device r = d) (device_rows s') = [x] \<and> is_on x = (a = JStr ''on'')
            \<and> last_updated x = now"
    unfolding s2 by simp
qed

lemma control_device_unchanged_or_switch:
  "snd (control_device now r s) = s
   \<or> (\<exists>u kvs d. r = \<lparr>request_method = POST, user = Some u, body = Some (JObj kvs)\<rparr>
          \<and> d \<in> {''fan'', ''heater''} \<and> map_of kvs ''device'' = Some (JStr d))"
  by (cases r)
     (auto simp: control_device_def dict_get_def Let_def
           split: option.splits json.splits sum.splits if_splits)

lemma control_device_keeps_table_ok:
  assumes "device_table_ok s"
  shows "device_table_ok (snd (control_device now r s))"
  using control_device_unchanged_or_switch [of now r s]
proof
  assume "snd (control_device now r s) = s"
  with assms show ?thesis by simp
next
  assume "\<exists>u kvs d. r = \<lparr>request_method = POST, user = Some u, body = Some (JObj kvs)\<rparr>
          \<and> d \<in> {''fan'', ''heater''} \<and> map_of kvs ''device'' = Some (JStr d)"
  then obtain u kvs d
    where "r = \<lparr>request_method = POST, user = Some u, body = Some (JObj kvs)\<rparr>"
      and "d \<in> {''fan'', ''heater''}" and "map_of kvs ''device'' = Some (JStr d)"
    by blast
  with control_device_switch(1) [OF assms, of d kvs _ now u] show ?thesis by simp
qed

lemma control_device_calls_keep_table_ok:
  "device_table_ok s \<Longrightarrow> device_table_ok (control_device_calls calls s)"
proof (induction calls arbitrary: s)
  case Nil
  then show ?case by simp
next
  case (Cons c calls)
  obtain now r where c: "c = (now, r)" by (cases c)
  from Cons.prems have "device_table_ok (snd (control_device now r s))"
    by (rule control_device_keeps_table_ok)
  then show ?case unfolding c by (simp add: Cons.IH)
qed

lemma empty_store_table_ok: "device_table_ok empty_store"
  by (simp add: device_table_ok_def pk_ok_def empty_store_def)

text \<open>
  Claim C2. Whatever sequence of calls of \<open>control_device\<close> is made, the DeviceControl
  table holds at most one row per device. Switching the fan on and then reading the
  device status yields \<open>is_on = True\<close> for the fan; and after one call for a device,
  as after a second one, the table has exactly one row for that device: the second
  call updates the row and creates none.
\<close>

theorem one_row_per_device:
  assumes "device_table_ok s"
  shows "distinct (map device (device_rows (control_device_calls calls s)))
    \<and> (map_of kvs ''device'' = Some (JStr ''fan'') \<and> map_of kvs ''action'' = Some (JStr ''on'')
        \<and> query_get q ''api_key'' = VALID_API_KEY
       \<longrightarrow> (\<exists>ho hat.
             fst (api_get_device_status q
               (snd (control_device now
                  \<lparr>request_method = POST, user = Some u, body = Some (JObj kvs)\<rparr> s)))
             = Response 200 (DeviceStatus True (Some now) ho hat)))
    \<and> (d \<in> {''fan'', ''heater''} \<and> map_of kvs1 ''device'' = Some (JStr d)
        \<and> map_of kvs2 ''device'' = Some (JStr d)
       \<longrightarrow> length (filter (\<lambda>x. device x = d)
             (device_rows (snd (control_device now1
                \<lparr>request_method = POST, user = Some u1, body = Some (JObj kvs1)\<rparr> s)))) = 1
         \<and> length (filter (\<lambda>x. device x = d)
             (device_rows (snd (control_device now2
                \<lparr>request_method = POST, user = Some u2, body = Some (JObj kvs2)\<rparr>
                (snd (control_device now1
                   \<lparr>request_method = POST, user = Some u1, body = Some (JObj kvs1)\<rparr> s)))))) = 1)"
proof (intro conjI impI)
  from control_device_calls_keep_table_ok [OF assms]
  show "distinct (map device (device_rows (control_device_calls calls s)))"
    by (simp add: device_table_ok_def)
next
  assume h: "map_of kvs ''device'' = Some (JStr ''fan'') \<and> map_of kvs ''action'' = Some (JStr ''on'')
        \<and> query_get q ''api_key'' = VALID_API_KEY"
  define s' where "s' = snd (control_device now
      \<lparr>request_method = POST, user = Some u, body = Some (JObj kvs)\<rparr> s)"
  from h control_device_switch(2) [OF assms _ _ s'_def refl, of "''fan''"]
  obtain x where "filter (\<lambda>r. device r = ''fan'') (device_rows s') = [x]"
    and "is_on x" and "last_updated x = now"
    by auto
  with h have "\<exists>ho hat. fst (api_get_device_status q s') = Response 200 (DeviceStatus True (Some now) ho hat)"
    by (simp add: api_get_device_status_def Let_def)
  then show "\<exists>ho hat.
             fst (api_get_device_status q
               (snd (control_device now
                  \<lparr>request_method = POST, user = Some u, body = Some (JObj kvs)\<rparr> s)))
             = Response 200 (DeviceStatus True (Some now) ho hat)"
    unfolding s'_def .
next
  assume h: "d \<in> {''fan'', ''heater''} \<and> map_of kvs1 ''device'' = Some (JStr d)
        \<and> map_of kvs2 ''device'' = Some (JStr d)"
  define s1 where "s1 = snd (control_device now1
      \<lparr>request_method = POST, user = Some u1, body = Some (JObj kvs1)\<rparr> s)"
  define s2 where "s2 = snd (control_device now2
      \<lparr>request_method = POST, user = Some u2, body = Some (JObj kvs2)\<rparr> s1)"
  from h have d: "d \<in> {''fan'', ''heater''}" and k1: "map_of kvs1 ''device'' = Some (JStr d)"
    and k2: "map_of kvs2 ''device'' = Some (JStr d)" by simp_all
  note first = control_device_switch [OF assms d k1 s1_def refl]
  note second = control_device_switch [OF first(1) d k2 s2_def refl]
  from first(2) have one: "length (filter (\<lambda>x. device x = d) (device_rows s1)) = 1" by auto
  from second(2) have two: "length (filter (\<lambda>x. device x = d) (device_rows s2)) = 1" by auto
  from one show "length (filter (\<lambda>x. device x = d)
             (device_rows (snd (control_device now1
                \<lparr>request_method = POST, user = Some u1, body = Some (JObj kvs1)\<rparr> s)))) = 1"
    unfolding s1_def .
  from two show "length (filter (\<lambda>x. device x = d)
             (device_rows (snd (control_device now2
                \<lparr>request_method = POST, user = Some u2, body = Some (JObj kvs2)\<rparr>
                (snd (control_device now1
                   \<lparr>request_method = POST, user = Some u1, body = Some (JObj kvs1)\<rparr> s)))))) = 1"
    unfolding s2_def s1_def .
qed

theorem one_row_per_device_witness:
  "device_table_ok empty_store
   \<and> map device (device_rows (control_device_calls [(5, fan_on_request), (6, fan_on_request)]
         empty_store)) = [''fan'']
   \<and> fst (api_get_device_status keyed_query (snd (control_device 5 fan_on_request empty_store)))
       = Response 200 (DeviceStatus True (Some 5) False None)
   \<and> length (filter (\<lambda>x. device x = ''fan'')
         (device_rows (snd (control_device 6 fan_on_request
            (snd (control_device 5 fan_on_request empty_store)))))) = 1"
proof -
  have ok: "device_table_ok empty_store"
    by (simp add: device_table_ok_def pk_ok_def empty_store_def)
  have one: "snd (control_device 5 fan_on_request empty_store)
      = empty_store\<lparr>device_rows := [\<lparr>dc_id = 1, device = ''fan'', is_on = True, last_updated = 5\<rparr>],
          device_next := 2\<rparr>"
    by (simp add: control_device_def fan_on_request_def dict_get_def get_or_create_device_def
          objects_get_def save_device_def empty_store_def Let_def)
  have two: "snd (control_device 6 fan_on_request
        (empty_store\<lparr>device_rows := [\<lparr>dc_id = 1, device = ''fan'', is_on = True, last_updated = 5\<rparr>],
          device_next := 2\<rparr>))
      = empty_store\<lparr>device_rows := [\<lparr>dc_id = 1, device = ''fan'', is_on = True, last_updated = 6\<rparr>],
          device_next := 2\<rparr>"
    by (simp add: control_device_def fan_on_request_def dict_get_def get_or_create_device_def
          objects_get_def save_device_def empty_store_def Let_def)
  have status: "fst (api_get_device_status keyed_query
        (empty_store\<lparr>device_rows := [\<lparr>dc_id = 1, device = ''fan'', is_on = True, last_updated = 5\<rparr>],
          device_next := 2\<rparr>))
      = Response 200 (DeviceStatus True (Some 5) False None)"
    by (simp add: api_get_device_status_def keyed_query_def query_get_def empty_store_def Let_def)
  from one_row_per_device [OF ok, of "[(5, fan_on_request), (6, fan_on_request)]"
      "[(''device'', JStr ''fan''), (''action'', JStr ''on'')]" keyed_query 5 1 "''fan''"
      "[(''device'', JStr ''fan''), (''action'', JStr ''on'')]"
      "[(''device'', JStr ''fan''), (''action'', JStr ''on'')]" 5 1 6 1]
  show ?thesis using ok one two status
    by (simp add: fan_on_request_def [symmetric])
qed


section \<open>The setpoint upsert\<close>

lemma update_setpoint_parsed:
  assumes "py_float pf (setpoint_field kvs) = Inr t"
  shows "update_setpoint pf now \<lparr>request_method = POST, user = Some u, body = Some (JObj kvs)\<rparr> s
    = (case get_or_create_setpoint pf now t u s of
         Inl e \<Rightarrow> (Response 400 (Failure (Raised e)), s)
       | Inr (setpoint, s1) \<Rightarrow>
           (case save_setpoint pf now
                   (setpoint\<lparr>setpoint_temperature := t, created_by := Some u\<rparr>) s1 of
              Inl e \<Rightarrow> (Response 400 (Failure (Raised e)), s1)
            | Inr s2 \<Rightarrow> (Response 200 (SetpointUpdated t), s2)))"
  using assms by (simp add: update_setpoint_def dict_get_def setpoint_field_def)

lemma update_setpoint_creates:
  assumes pk: "pk_ok sp_id (setpoint_rows s) (setpoint_next s)"
    and none: "filter is_active (setpoint_rows s) = []"
    and t: "py_float pf (setpoint_field kvs) = Inr t" and db: "db_accepts pf t"
  shows "update_setpoint pf now \<lparr>request_method = POST, user = Some u, body = Some (JObj kvs)\<rparr> s
    = (Response 200 (SetpointUpdated t),
       s\<lparr>setpoint_rows := setpoint_rows s @
            [\<lparr>sp_id = setpoint_next s, setpoint_temperature = t, created_by = Some u,
              created_at = now, updated_at = now, is_active = True\<rparr>],
         setpoint_next := Suc (setpoint_next s)\<rparr>)"
proof -
  from pk have "\<forall>y \<in> set (setpoint_rows s). sp_id y \<noteq> setpoint_next s"
    by (auto simp: pk_ok_def)
  then have keep: "map (\<lambda>y. if sp_id y = setpoint_next s then z else y) (setpoint_rows s)
      = setpoint_rows s" for z
    by (simp add: map_idI)
  show ?thesis
    unfolding update_setpoint_parsed [OF t]
    using none keep db
    by (simp add: get_or_create_setpoint_def objects_get_def save_setpoint_def Let_def)
qed

lemma update_setpoint_overwrites:
  assumes pk: "pk_ok sp_id (setpoint_rows s) (setpoint_next s)"
    and one: "filter is_active (setpoint_rows s) = [x]"
    and t: "py_float pf (setpoint_field kvs) = Inr t" and db: "db_accepts pf t"
  shows "\<exists>i < length (setpoint_rows s). setpoint_rows s ! i = x
    \<and> update_setpoint pf now \<lparr>request_method = POST, user = Some u, body = Some (JObj kvs)\<rparr> s
      = (Response 200 (SetpointUpdated t),
         s\<lparr>setpoint_rows := (setpoint_rows s)
              [i := x\<lparr>setpoint_temperature := t, created_by := Some u, updated_at := now\<rparr>]\<rparr>)"
proof -
  have "x \<in> set (filter is_active (setpoint_rows s))" using one by simp
  then have "x \<in> set (setpoint_rows s)" by simp
  then obtain i where i: "i < length (setpoint_rows s)" "setpoint_rows s ! i = x"
    by (auto simp: in_set_conv_nth)
  from pk have "distinct (map sp_id (setpoint_rows s))" by (simp add: pk_ok_def)
  from map_replace_by_key [OF this i(1)] i(2)
  have upd: "map (\<lambda>y. if sp_id y = sp_id x then z else y) (setpoint_rows s)
      = (setpoint_rows s)[i := z]" for z
    by simp
  have "update_setpoint pf now \<lparr>request_method = POST, user = Some u, body = Some (JObj kvs)\<rparr> s
      = (Response 200 (SetpointUpdated t),
         s\<lparr>setpoint_rows := (setpoint_rows s)
              [i := x\<lparr>setpoint_temperature := t, created_by := Some u, updated_at := now\<rparr>]\<rparr>)"
    unfolding update_setpoint_parsed [OF t]
    using one upd db
    by (simp add: get_or_create_setpoint_def objects_get_def save_setpoint_def)
  with i show ?thesis by blast
qed

text \<open>A value the database refuses is written nowhere, in the create branch as in the save.\<close>

lemma update_setpoint_refused:
  assumes le: "length (filter is_active (setpoint_rows s)) \<le> 1"
    and t: "py_float pf (setpoint_field kvs) = Inr t" and db: "\<not> db_accepts pf t"
  shows "update_setpoint pf now \<lparr>request_method = POST, user = Some u, body = Some (JObj kvs)\<rparr> s
    = (Response 400 (Failure (Raised DatabaseError)), s)"
proof (cases "filter is_active (setpoint_rows s)")
  case Nil
  with db show ?thesis
    unfolding update_setpoint_parsed [OF t]
    by (simp add: get_or_create_setpoint_def objects_get_def)
next
  case (Cons x xs)
  with le have "filter is_active (setpoint_rows s) = [x]" by simp
  with db show ?thesis
    unfolding update_setpoint_parsed [OF t]
    by (simp add: get_or_create_setpoint_def objects_get_def save_setpoint_def)
qed

lemma update_setpoint_several_active:
  assumes "2 \<le> length (filter is_active (setpoint_rows s))"
  shows "snd (update_setpoint pf now r s) = s"
    and "status (fst (update_setpoint pf now r s)) \<noteq> 200"
proof -
  from assms obtain a b cs where f: "filter is_active (setpoint_rows s) = a # b # cs"
    by (cases "filter is_active (setpoint_rows s)" rule: list.exhaust)
       (auto simp: Suc_le_eq neq_Nil_conv)
  then have goc: "get_or_create_setpoint pf now t' u' s = Inl MultipleObjectsReturned" for t' u'
    by (simp add: get_or_create_setpoint_def objects_get_def)
  show "snd (update_setpoint pf now r s) = s"
    by (simp add: update_setpoint_def goc split: option.splits sum.splits)
  show "status (fst (update_setpoint pf now r s)) \<noteq> 200"
    by (simp add: update_setpoint_def goc split: option.splits sum.splits)
qed

lemma filter_single_update:
  assumes "filter P xs = [x]" and "i < length xs" and "xs ! i = x" and "P z"
  shows "filter P (xs[i := z]) = [z]"
proof -
  have xs: "xs = take i xs @ x # drop (Suc i) xs"
    using id_take_nth_drop [OF assms(2)] unfolding assms(3) .
  have "filter P (take i xs) @ x # filter P (drop (Suc i) xs) = [x]"
  proof -
    have "x \<in> set (filter P xs)" using assms(1) by simp
    then have "P x" by simp
    then have "filter P (take i xs @ x # drop (Suc i) xs)
        = filter P (take i xs) @ x # filter P (drop (Suc i) xs)" by simp
    with xs assms(1) show ?thesis by simp
  qed
  then have e: "filter P (take i xs) = []" "filter P (drop (Suc i) xs) = []"
    by (simp_all add: append_eq_Cons_conv)
  have "xs[i := z] = take i xs @ z # drop (Suc i) xs"
    using assms(2) by (simp add: upd_conv_take_nth_drop)
  then have "filter P (xs[i := z]) = filter P (take i xs) @ z # filter P (drop (Suc i) xs)"
    using assms(4) by simp
  with e show ?thesis by simp
qed

lemma update_setpoint_twice:
  assumes pk: "pk_ok sp_id (setpoint_rows s) (setpoint_next s)"
    and none: "filter is_active (setpoint_rows s) = []"
    and t1: "py_float pf (setpoint_field kvs1) = Inr t1" and db1: "db_accepts pf t1"
    and t2: "py_float pf (setpoint_field kvs2) = Inr t2" and db2: "db_accepts pf t2"
  shows "snd (update_setpoint pf now2
            \<lparr>request_method = POST, user = Some u2, body = Some (JObj kvs2)\<rparr>
            (snd (update_setpoint pf now1
               \<lparr>request_method = POST, user = Some u1, body = Some (JObj kvs1)\<rparr> s)))
    = s\<lparr>setpoint_rows := setpoint_rows s @
            [\<lparr>sp_id = setpoint_next s, setpoint_temperature = t2, created_by = Some u2,
              created_at = now1, updated_at = now2, is_active = True\<rparr>],
         setpoint_next := Suc (setpoint_next s)\<rparr>"
proof -
  from pk have "\<forall>y \<in> set (setpoint_rows s). sp_id y \<noteq> setpoint_next s"
    by (auto simp: pk_ok_def)
  then have keep: "map (\<lambda>y. if sp_id y = setpoint_next s then z else y) (setpoint_rows s)
      = setpoint_rows s" for z
    by (simp add: map_idI)
  show ?thesis
    unfolding update_setpoint_creates [OF pk none t1 db1] update_setpoint_parsed [OF t2]
    using none keep db2
    by (simp add: get_or_create_setpoint_def objects_get_def save_setpoint_def)
qed

text \<open>
  With at most one active row the upsert does what is asked of it: it appends the one
  active row when there is none, overwrites temperature and owner of the active row
  in place when there is one, leaves exactly one active row, and a second call
  changes the row the first one created.
\<close>

lemma setpoint_upsert_single_active:
  assumes pk: "pk_ok sp_id (setpoint_rows s) (setpoint_next s)"
    and t: "py_float pf (setpoint_field kvs) = Inr t" and db: "db_accepts pf t"
  shows "filter is_active (setpoint_rows s) = [] \<Longrightarrow>
            update_setpoint pf now
              \<lparr>request_method = POST, user = Some u, body = Some (JObj kvs)\<rparr> s
            = (Response 200 (SetpointUpdated t),
               s\<lparr>setpoint_rows := setpoint_rows s @
                    [\<lparr>sp_id = setpoint_next s, setpoint_temperature = t, created_by = Some u,
                      created_at = now, updated_at = now, is_active = True\<rparr>],
                 setpoint_next := Suc (setpoint_next s)\<rparr>)"
    and "filter is_active (setpoint_rows s) = [x] \<Longrightarrow>
          \<exists>i < length (setpoint_rows s). setpoint_rows s ! i = x
             \<and> update_setpoint pf now
                 \<lparr>request_method = POST, user = Some u, body = Some (JObj kvs)\<rparr> s
               = (Response 200 (SetpointUpdated t),
                  s\<lparr>setpoint_rows := (setpoint_rows s)
                       [i := x\<lparr>setpoint_temperature := t, created_by := Some u,
                               updated_at := now\<rparr>]\<rparr>)"
    and "length (filter is_active (setpoint_rows s)) \<le> 1 \<Longrightarrow>
          \<exists>s' y. update_setpoint pf now
                \<lparr>request_method = POST, user = Some u, body = Some (JObj kvs)\<rparr> s
              = (Response 200 (SetpointUpdated t), s')
            \<and> filter is_active (setpoint_rows s') = [y]
            \<and> setpoint_temperature y = t \<and> created_by y = Some u \<and> updated_at y = now"
proof -
  show create: "update_setpoint pf now
              \<lparr>request_method = POST, user = Some u, body = Some (JObj kvs)\<rparr> s
            = (Response 200 (SetpointUpdated t),
               s\<lparr>setpoint_rows := setpoint_rows s @
                    [\<lparr>sp_id = setpoint_next s, setpoint_temperature = t, created_by = Some u,
                      created_at = now, updated_at = now, is_active = True\<rparr>],
                 setpoint_next := Suc (setpoint_next s)\<rparr>)"
    if "filter is_active (setpoint_rows s) = []"
    using update_setpoint_creates [OF pk that t db] .
  show overwrite: "\<exists>i < length (setpoint_rows s). setpoint_rows s ! i = x
             \<and> update_setpoint pf now
                 \<lparr>request_method = POST, user = Some u, body = Some (JObj kvs)\<rparr> s
               = (Response 200 (SetpointUpdated t),
                  s\<lparr>setpoint_rows := (setpoint_rows s)
                       [i := x\<lparr>setpoint_temperature := t, created_by := Some u,
                               updated_at := now\<rparr>]\<rparr>)"
    if "filter is_active (setpoint_rows s) = [x]" for x
    using update_setpoint_overwrites [OF pk that t db] .
  show "\<exists>s' y. update_setpoint pf now
                \<lparr>request_method = POST, user = Some u, body = Some (JObj kvs)\<rparr> s
              = (Response 200 (SetpointUpdated t), s')
            \<and> filter is_active (setpoint_rows s') = [y]
            \<and> setpoint_temperature y = t \<and> created_by y = Some u \<and> updated_at y = now"
    if le: "length (filter is_active (setpoint_rows s)) \<le> 1"
  proof (cases "filter is_active (setpoint_rows s)")
    case Nil
    from create [OF Nil] Nil show ?thesis by simp
  next
    case (Cons x xs)
    with le have one: "filter is_active (setpoint_rows s) = [x]" by simp
    then have "x \<in> set (filter is_active (setpoint_rows s))" by simp
    then have act: "is_active x" by simp
    let ?z = "x\<lparr>setpoint_temperature := t, created_by := Some u, updated_at := now\<rparr>"
    from overwrite [OF one]
    obtain i where i: "i < length (setpoint_rows s)" "setpoint_rows s ! i = x"
      and res: "update_setpoint pf now
          \<lparr>request_method = POST, user = Some u, body = Some (JObj kvs)\<rparr> s
        = (Response 200 (SetpointUpdated t), s\<lparr>setpoint_rows := (setpoint_rows s)[i := ?z]\<rparr>)"
      by blast
    from filter_single_update [OF one i, of ?z] act
    have "filter is_active ((setpoint_rows s)[i := ?z]) = [?z]" by simp
    with res show ?thesis by simp
  qed
qed

text \<open>
  Claim C1 fails on the code. The claim is about every store state; this one holds two
  rows with \<open>is_active = True\<close> (the admin site's add form makes them, the flag
  defaults to true). A logged-in POST of \<open>{"setpoint": 30}\<close> finds no row to
  overwrite: \<open>get_or_create(is_active=True)\<close> raises MultipleObjectsReturned, the
  blanket \<open>except\<close> answers 400, and both rows keep their temperature and owner. The
  reads of the same row, \<open>filter(is_active=True).first()\<close>, do pick one.
\<close>

theorem setpoint_upsert_two_active_fails:
  "update_setpoint example_platform 9 (setpoint_request (JInt 30)) two_active_store
     = (Response 400 (Failure (Raised MultipleObjectsReturned)), two_active_store)
   \<and> fst (api_get_setpoint keyed_query two_active_store)
     = Response 200 (Setpoint (Finite 28) (Some 5))"
proof -
  have "py_float example_platform (JInt 30) = Inr (Finite 30)"
    using float_of_int_small [of 30] by simp
  then show ?thesis
    by (simp add: update_setpoint_def setpoint_request_def dict_get_def
          get_or_create_setpoint_def objects_get_def api_get_setpoint_def keyed_query_def
          query_get_def two_active_store_def example_store_def)
qed

section \<open>Several active setpoints\<close>

text \<open>
  Two of three rows are active. The read answers with the one updated last, but a
  setpoint update does not overwrite it: the view answers 400 and every row stays as
  it was.
\<close>

theorem setpoint_upsert_most_recent_counterexample:
  "fst (api_get_setpoint keyed_query three_setpoints_store)
     = Response 200 (Setpoint (Finite 28) (Some 8))
   \<and> update_setpoint example_platform 9 (setpoint_request (JFloat (Finite 30)))
        three_setpoints_store
     = (Response 400 (Failure (Raised MultipleObjectsReturned)), three_setpoints_store)"
  by (simp add: api_get_setpoint_def keyed_query_def query_get_def update_setpoint_def
        setpoint_request_def dict_get_def get_or_create_setpoint_def objects_get_def
        three_setpoints_store_def example_store_def)

text \<open>
  Claim C9, amended to the read. When more than one TemperatureSetpoint row is active,
  \<open>api_get_setpoint\<close> answers with the active row that is first under the ordering
  \<open>-updated_at\<close>: the active row updated later than every other active row is the
  one returned (its temperature a finite float, which every renderer writes), and no
  row is changed.
\<close>

theorem several_active_read_latest:
  assumes "query_get q ''api_key'' = VALID_API_KEY"
    and "x \<in> set (setpoint_rows s)" and "is_active x"
    and "\<forall>y \<in> set (setpoint_rows s). is_active y \<and> y \<noteq> x \<longrightarrow> updated_at y < updated_at x"
    and "is_finite (setpoint_temperature x)"
  shows "api_get_setpoint q s
         = (Response 200 (Setpoint (setpoint_temperature x) (Some (updated_at x))), s)"
proof -
  from assms(2,3,4) have "x \<in> set (filter is_active (setpoint_rows s))"
    and "\<forall>y \<in> set (filter is_active (setpoint_rows s)). y \<noteq> x \<longrightarrow> updated_at y < updated_at x"
    by simp_all
  then have "first_desc updated_at (filter is_active (setpoint_rows s)) = Some x"
    by (rule first_desc_strict_max)
  with assms(1) show ?thesis by (simp add: api_get_setpoint_def)
qed

theorem several_active_read_latest_witness:
  "query_get keyed_query ''api_key'' = VALID_API_KEY
   \<and> map is_active (setpoint_rows three_setpoints_store) = [True, False, True]
   \<and> map updated_at (setpoint_rows three_setpoints_store) = [4, 6, 8]
   \<and> map setpoint_temperature (setpoint_rows three_setpoints_store)
       = [Finite 26, Finite 27, Finite 28]
   \<and> api_get_setpoint keyed_query three_setpoints_store
       = (Response 200 (Setpoint (Finite 28) (Some 8)), three_setpoints_store)"
proof -
  let ?x = "\<lparr>sp_id = 3, setpoint_temperature = Finite 28, created_by = Some 2,
              created_at = 7, updated_at = 8, is_active = True\<rparr>"
  have k: "query_get keyed_query ''api_key'' = VALID_API_KEY"
    by (simp add: keyed_query_def query_get_def)
  have x: "?x \<in> set (setpoint_rows three_setpoints_store)" "is_active ?x"
    by (simp_all add: three_setpoints_store_def)
  have latest: "\<forall>y \<in> set (setpoint_rows three_setpoints_store).
      is_active y \<and> y \<noteq> ?x \<longrightarrow> updated_at y < updated_at ?x"
    by (simp add: three_setpoints_store_def)
  have fin: "is_finite (setpoint_temperature ?x)" by simp
  from several_active_read_latest [OF k x latest fin]
  have read: "api_get_setpoint keyed_query three_setpoints_store
       = (Response 200 (Setpoint (Finite 28) (Some 8)), three_setpoints_store)"
    by simp
  have flags: "map is_active (setpoint_rows three_setpoints_store) = [True, False, True]"
    "map updated_at (setpoint_rows three_setpoints_store) = [4, 6, 8]"
    "map setpoint_temperature (setpoint_rows three_setpoints_store)
       = [Finite 26, Finite 27, Finite 28]"
    by (simp_all add: three_setpoints_store_def)
  from k flags read show ?thesis by blast
qed

section \<open>The default of a missing setpoint\<close>

lemma update_setpoint_bad_body:
  "update_setpoint pf now \<lparr>request_method = POST, user = Some u, body = None\<rparr> s
     = (Response 400 (Failure (Raised JSONDecodeError)), s)"
  "\<forall>kvs. j \<noteq> JObj kvs \<Longrightarrow>
   update_setpoint pf now \<lparr>request_method = POST, user = Some u, body = Some j\<rparr> s
     = (Response 400 (Failure (Raised AttributeError)), s)"
  "py_float pf (setpoint_field kvs) = Inl e \<Longrightarrow>
   update_setpoint pf now \<lparr>request_method = POST, user = Some u, body = Some (JObj kvs)\<rparr> s
     = (Response 400 (Failure (Raised e)), s)"
proof -
  show "update_setpoint pf now \<lparr>request_method = POST, user = Some u, body = None\<rparr> s
     = (Response 400 (Failure (Raised JSONDecodeError)), s)"
    by (simp add: update_setpoint_def)
  show "update_setpoint pf now \<lparr>request_method = POST, user = Some u, body = Some j\<rparr> s
     = (Response 400 (Failure (Raised AttributeError)), s)" if "\<forall>kvs. j \<noteq> JObj kvs"
    using that by (cases j) (simp_all add: update_setpoint_def dict_get_def)
  show "update_setpoint pf now \<lparr>request_method = POST, user = Some u, body = Some (JObj kvs)\<rparr> s
     = (Response 400 (Failure (Raised e)), s)" if "py_float pf (setpoint_field kvs) = Inl e"
    using that by (simp add: update_setpoint_def dict_get_def setpoint_field_def)
qed

text \<open>
  A body that is valid JSON but no dict (here the empty list) is answered with 400
  although no \<open>setpoint\<close> value is present; and a present value that \<open>float()\<close> does
  parse, the string \<open>nan\<close>, is answered with 400 by a database that refuses it.
\<close>

theorem missing_setpoint_counterexample:
  "update_setpoint example_platform 9
      \<lparr>request_method = POST, user = Some 1, body = Some (JArr [])\<rparr> example_store
     = (Response 400 (Failure (Raised AttributeError)), example_store)
   \<and> py_float example_platform (JStr ''nan'') = Inr NaN
   \<and> update_setpoint example_platform 9 (setpoint_request (JStr ''nan'')) example_store
     = (Response 400 (Failure (Raised DatabaseError)), example_store)"
  by (simp add: update_setpoint_def setpoint_request_def dict_get_def
        get_or_create_setpoint_def objects_get_def save_setpoint_def db_accepts_def
        example_platform_def example_store_def)

text \<open>
  Claim C10, amended to the stores with at most one active row and to dict bodies.
  \<open>update_setpoint\<close>, called by a logged-in user with a dict that has no
  \<open>setpoint\<close> entry, does not fail: it does what it does for the entry 25.0, that is,
  it answers with success and creates the active row with temperature 25.0, or sets
  the temperature of the one active row to 25.0. The view answers 400 exactly when
  the body is not valid JSON, is no dict, or holds a \<open>setpoint\<close> value that
  \<open>float()\<close> rejects or converts to a float the database refuses.
\<close>

theorem missing_setpoint_defaults:
  assumes pk: "pk_ok sp_id (setpoint_rows s) (setpoint_next s)"
    and le: "length (filter is_active (setpoint_rows s)) \<le> 1"
  shows "(map_of kvs ''setpoint'' = None \<longrightarrow>
           update_setpoint pf now
             \<lparr>request_method = POST, user = Some u, body = Some (JObj kvs)\<rparr> s
           = update_setpoint pf now
               \<lparr>request_method = POST, user = Some u,
                 body = Some (JObj ((''setpoint'', JFloat (Finite 25)) # kvs))\<rparr> s)
    \<and> (map_of kvs ''setpoint'' = None \<and> filter is_active (setpoint_rows s) = [] \<longrightarrow>
           update_setpoint pf now
             \<lparr>request_method = POST, user = Some u, body = Some (JObj kvs)\<rparr> s
           = (Response 200 (SetpointUpdated (Finite 25)),
              s\<lparr>setpoint_rows := setpoint_rows s @
                   [\<lparr>sp_id = setpoint_next s, setpoint_temperature = Finite 25,
                     created_by = Some u, created_at = now, updated_at = now,
                     is_active = True\<rparr>],
                setpoint_next := Suc (setpoint_next s)\<rparr>))
    \<and> (\<forall>x. map_of kvs ''setpoint'' = None \<and> filter is_active (setpoint_rows s) = [x] \<longrightarrow>
           (\<exists>i < length (setpoint_rows s). setpoint_rows s ! i = x
              \<and> update_setpoint pf now
                  \<lparr>request_method = POST, user = Some u, body = Some (JObj kvs)\<rparr> s
                = (Response 200 (SetpointUpdated (Finite 25)),
                   s\<lparr>setpoint_rows := (setpoint_rows s)
                        [i := x\<lparr>setpoint_temperature := Finite 25, created_by := Some u,
                                updated_at := now\<rparr>]\<rparr>)))
    \<and> (status (fst (update_setpoint pf now
            \<lparr>request_method = POST, user = Some u, body = b\<rparr> s)) = 400
        \<longleftrightarrow> b = None
          \<or> (\<exists>j. b = Some j \<and> (\<forall>kvs. j \<noteq> JObj kvs))
          \<or> (\<exists>kvs v. b = Some (JObj kvs) \<and> map_of kvs ''setpoint'' = Some v
                \<and> \<not> value_accepted pf v))"
proof (intro conjI impI allI)
  assume "map_of kvs ''setpoint'' = None"
  then show "update_setpoint pf now
             \<lparr>request_method = POST, user = Some u, body = Some (JObj kvs)\<rparr> s
           = update_setpoint pf now
               \<lparr>request_method = POST, user = Some u,
                 body = Some (JObj ((''setpoint'', JFloat (Finite 25)) # kvs))\<rparr> s"
    by (simp add: update_setpoint_def dict_get_def)
next
  assume h: "map_of kvs ''setpoint'' = None \<and> filter is_active (setpoint_rows s) = []"
  then have t: "py_float pf (setpoint_field kvs) = Inr (Finite 25)"
    by (simp add: setpoint_field_def)
  from h update_setpoint_creates [OF pk _ t db_accepts_finite]
  show "update_setpoint pf now
             \<lparr>request_method = POST, user = Some u, body = Some (JObj kvs)\<rparr> s
           = (Response 200 (SetpointUpdated (Finite 25)),
              s\<lparr>setpoint_rows := setpoint_rows s @
                   [\<lparr>sp_id = setpoint_next s, setpoint_temperature = Finite 25,
                     created_by = Some u, created_at = now, updated_at = now,
                     is_active = True\<rparr>],
                setpoint_next := Suc (setpoint_next s)\<rparr>)"
    by blast
next
  fix x
  assume h: "map_of kvs ''setpoint'' = None \<and> filter is_active (setpoint_rows s) = [x]"
  then have t: "py_float pf (setpoint_field kvs) = Inr (Finite 25)"
    by (simp add: setpoint_field_def)
  from h update_setpoint_overwrites [OF pk _ t db_accepts_finite]
  show "\<exists>i < length (setpoint_rows s). setpoint_rows s ! i = x
              \<and> update_setpoint pf now
                  \<lparr>request_method = POST, user = Some u, body = Some (JObj kvs)\<rparr> s
                = (Response 200 (SetpointUpdated (Finite 25)),
                   s\<lparr>setpoint_rows := (setpoint_rows s)
                        [i := x\<lparr>setpoint_temperature := Finite 25, created_by := Some u,
                                updated_at := now\<rparr>]\<rparr>)"
    by blast
next
  let ?res = "\<lambda>b. update_setpoint pf now \<lparr>request_method = POST, user = Some u, body = b\<rparr> s"
  show "status (fst (?res b)) = 400
        \<longleftrightarrow> b = None
          \<or> (\<exists>j. b = Some j \<and> (\<forall>kvs. j \<noteq> JObj kvs))
          \<or> (\<exists>kvs v. b = Some (JObj kvs) \<and> map_of kvs ''setpoint'' = Some v
                \<and> \<not> value_accepted pf v)"
  proof (cases b)
    case None
    then show ?thesis by (simp add: update_setpoint_bad_body(1))
  next
    case (Some j)
    show ?thesis
    proof (cases "\<exists>kvs. j = JObj kvs")
      case False
      then have "\<forall>kvs. j \<noteq> JObj kvs" by simp
      with Some show ?thesis by (simp add: update_setpoint_bad_body(2))
    next
      case True
      then obtain kvs where j: "j = JObj kvs" by blast
      have dflt: "value_accepted pf (setpoint_field kvs)" if "map_of kvs ''setpoint'' = None"
        using that by (simp add: setpoint_field_def value_accepted_def)
      have present: "map_of kvs ''setpoint'' = Some v \<Longrightarrow> setpoint_field kvs = v" for v
        by (simp add: setpoint_field_def)
      show ?thesis
      proof (cases "value_accepted pf (setpoint_field kvs)")
        case True
        then obtain t where t: "py_float pf (setpoint_field kvs) = Inr t" and db: "db_accepts pf t"
          by (auto simp: value_accepted_def split: sum.splits)
        from setpoint_upsert_single_active(3) [OF pk t db le, of now u]
        have "status (fst (?res (Some (JObj kvs)))) = 200" by auto
        with Some j True present show ?thesis by auto
      next
        case False
        with dflt obtain v where v: "map_of kvs ''setpoint'' = Some v"
          by (cases "map_of kvs ''setpoint''") auto
        have "status (fst (?res (Some (JObj kvs)))) = 400"
        proof (cases "py_float pf (setpoint_field kvs)")
          case (Inl e)
          then show ?thesis by (simp add: update_setpoint_bad_body(3))
        next
          case (Inr t)
          with False have "\<not> db_accepts pf t" by (simp add: value_accepted_def)
          from update_setpoint_refused [OF le Inr this] show ?thesis by simp
        qed
        with Some j False v present show ?thesis by auto
      qed
    qed
  qed
qed

theorem missing_setpoint_defaults_witness:
  "pk_ok sp_id (setpoint_rows example_store) (setpoint_next example_store)
   \<and> length (filter is_active (setpoint_rows example_store)) = 1
   \<and> update_setpoint example_platform 9
        \<lparr>request_method = POST, user = Some 2, body = Some (JObj [])\<rparr> example_store
       = (Response 200 (SetpointUpdated (Finite 25)),
          example_store\<lparr>setpoint_rows :=
             [\<lparr>sp_id = 1, setpoint_temperature = Finite 25, created_by = Some 2,
               created_at = 1, updated_at = 9, is_active = True\<rparr>]\<rparr>)
   \<and> status (fst (update_setpoint example_platform 9
        \<lparr>request_method = POST, user = Some 2,
          body = Some (JObj [(''setpoint'', JStr ''warm'')])\<rparr> example_store)) = 400
   \<and> status (fst (update_setpoint example_platform 9
        \<lparr>request_method = POST, user = Some 2,
          body = Some (JObj [(''setpoint'', JInt huge_int)])\<rparr> example_store)) = 400"
proof -
  let ?x = "\<lparr>sp_id = 1, setpoint_temperature = Finite 26, created_by = Some 1,
              created_at = 1, updated_at = 4, is_active = True\<rparr>"
  have pk: "pk_ok sp_id (setpoint_rows example_store) (setpoint_next example_store)"
    by (simp add: pk_ok_def example_store_def)
  have le: "length (filter is_active (setpoint_rows example_store)) \<le> 1"
    and one: "length (filter is_active (setpoint_rows example_store)) = 1"
    and x: "filter is_active (setpoint_rows example_store) = [?x]"
    by (simp_all add: example_store_def)
  have warm: "\<not> value_accepted example_platform (JStr ''warm'')"
    by (simp add: value_accepted_def example_platform_def)
  have huge: "\<not> value_accepted example_platform (JInt huge_int)"
    by (simp add: value_accepted_def float_of_int_beyond_range)
  note w = missing_setpoint_defaults [OF pk le, where pf = example_platform and now = 9
      and u = 2]
  have none: "map_of ([] :: (string \<times> json) list) ''setpoint'' = None
      \<and> filter is_active (setpoint_rows example_store) = [?x]"
    using x by simp
  from w [where kvs = "[]"]
  have "\<forall>x. map_of ([] :: (string \<times> json) list) ''setpoint'' = None
        \<and> filter is_active (setpoint_rows example_store) = [x] \<longrightarrow>
      (\<exists>i < length (setpoint_rows example_store). setpoint_rows example_store ! i = x
         \<and> update_setpoint example_platform 9
             \<lparr>request_method = POST, user = Some 2, body = Some (JObj [])\<rparr> example_store
           = (Response 200 (SetpointUpdated (Finite 25)),
              example_store\<lparr>setpoint_rows := (setpoint_rows example_store)
                 [i := x\<lparr>setpoint_temperature := Finite 25, created_by := Some 2,
                         updated_at := 9\<rparr>]\<rparr>))"
    by blast
  with none
  obtain i where i: "i < length (setpoint_rows example_store)"
    and raw: "update_setpoint example_platform 9
        \<lparr>request_method = POST, user = Some 2, body = Some (JObj [])\<rparr> example_store
       = (Response 200 (SetpointUpdated (Finite 25)),
          example_store\<lparr>setpoint_rows := (setpoint_rows example_store)
             [i := ?x\<lparr>setpoint_temperature := Finite 25, created_by := Some 2,
                      updated_at := 9\<rparr>]\<rparr>)"
    by blast
  from i have "i = 0" by (simp add: example_store_def)
  then have dflt: "update_setpoint example_platform 9
        \<lparr>request_method = POST, user = Some 2, body = Some (JObj [])\<rparr> example_store
       = (Response 200 (SetpointUpdated (Finite 25)),
          example_store\<lparr>setpoint_rows :=
             [\<lparr>sp_id = 1, setpoint_temperature = Finite 25, created_by = Some 2,
               created_at = 1, updated_at = 9, is_active = True\<rparr>]\<rparr>)"
    unfolding raw by (simp add: example_store_def)
  from warm w [where b = "Some (JObj [(''setpoint'', JStr ''warm'')])"]
  have bad: "status (fst (update_setpoint example_platform 9
        \<lparr>request_method = POST, user = Some 2,
          body = Some (JObj [(''setpoint'', JStr ''warm'')])\<rparr> example_store)) = 400"
    by simp
  from huge w [where b = "Some (JObj [(''setpoint'', JInt huge_int)])"]
  have big: "status (fst (update_setpoint example_platform 9
        \<lparr>request_method = POST, user = Some 2,
          body = Some (JObj [(''setpoint'', JInt huge_int)])\<rparr> example_store)) = 400"
    by simp
  from pk one dflt bad big show ?thesis by blast
qed

end
